theory Spec2Isabelle
  imports Main "HOL-Library.Word" "HOL-Library.Signed_Division"
begin

unbundle bit_operations_syntax

section \<open>Array geometry and wire protocol (raid.h)\<close>

text \<open>
  The header raid.h is not part of the sources at hand. The controller and the disk
  simulator use its globals \<open>num_disks\<close>, \<open>block_size\<close> and \<open>disk_size\<close>, its macro
  \<open>MAX_NAME\<close> and its enum \<open>disk_command_t\<close>; they are taken as parameters here.
  C's \<open>int\<close> is modelled by \<open>int\<close>; \<open>/\<close> and \<open>%\<close> truncate towards zero, which
  is \<open>sdiv\<close> and \<open>smod\<close>. A \<open>char\<close> is an 8-bit word.

  Three more parameters describe the pipes of the system the program runs on:
  \<open>pipe_buf\<close> is PIPE_BUF, the largest write that is atomic (4096 on Linux);
  \<open>pipe_capacity\<close> is the most a pipe holds (65536 on Linux); and
  \<open>writes_complete_first\<close> says how the processes happen to be scheduled when a block
  lies between the two: whether the writer has put the whole block into the pipe before
  the reader's single \<open>read\<close> returns.
\<close>

type_synonym byte = "8 word"

record config =
  num_disks :: int
  block_size :: int
  disk_size :: int
  max_name :: int
  pipe_buf :: int
  pipe_capacity :: int
  writes_complete_first :: bool

text \<open>
  A command tag as the worker's \<open>switch\<close> sees it: one of the three enumerators, or any
  other integer value (which falls to \<open>default\<close>).
\<close>

datatype disk_command = CMD_READ | CMD_WRITE | CMD_EXIT | CMD_OTHER int

text \<open>
  What travels on a controller-to-worker pipe: every \<open>write\<close> call of the controller puts
  one item on the pipe (a command tag, a block number, or \<open>block_size\<close> bytes of payload).
  \<open>Eof\<close> marks a pipe on which the worker's next \<open>read\<close> returns less than it asked for
  (no writer left, or an invalid descriptor).
\<close>

datatype wire = Tag disk_command | Idx int | Payload "byte list" | Eof

section \<open>The disk worker (disk\_sim.c)\<close>

text \<open>
  How a worker process stands: running its command loop (possibly blocked in \<open>read\<close>),
  exited with a status, stopped in undefined behaviour (an access outside \<open>disk_data\<close>),
  or fed a stream that is not framed as tag, block number, payload (what the byte-level
  reinterpretation would give is outside this model).
\<close>

datatype proc_state = Running | Exited int | Undefined_behaviour | Misframed

record worker =
  disk_data :: "byte list"
  status :: int
  proc :: proc_state
  to_disk_pipe :: "wire list"
  from_disk_pipe :: "byte list list"
  called_checkpoint_and_wait :: bool

text \<open>
  The file system the checkpoints go to, and how the C library answers during one
  \<open>checkpoint_disk\<close> call.
\<close>

type_synonym filesys = "string \<rightharpoonup> byte list"

datatype file_io = Io_ok | Fopen_fails | Fwrite_short nat | Fclose_fails

text \<open>The decimal text that \<open>%d\<close> prints.\<close>

fun digits :: "nat \<Rightarrow> string" where
  "digits n = (if n < 10 then [''0123456789'' ! n]
               else digits (n div 10) @ [''0123456789'' ! (n mod 10)])"

declare digits.simps [simp del]

definition show_int :: "int \<Rightarrow> string" where
  "show_int i = (if i < 0 then CHR ''-'' # digits (nat (- i)) else digits (nat i))"

definition disk_name :: "int \<Rightarrow> string" where
  "disk_name i = ''disk_'' @ show_int i @ ''.dat''"

text \<open>
  \<open>checkpoint_disk\<close>: returns the C return value and the file system afterwards.
  \<open>snprintf\<close> returns the length of the whole name; a name that does not fit gives 1 and
  no file. \<open>fopen\<close> with mode wb truncates, so a successful call leaves exactly the
  \<open>disk_size\<close> bytes of \<open>disk_data\<close> in the file. (\<open>disk_data\<close> is never NULL here:
  \<open>start_disk\<close> returns before its loop when \<open>calloc\<close> fails, and allocation is taken
  to succeed throughout.)
\<close>

definition checkpoint_disk :: "config \<Rightarrow> file_io \<Rightarrow> byte list \<Rightarrow> int \<Rightarrow> filesys \<Rightarrow> int \<times> filesys" where
  "checkpoint_disk cfg io data i fs =
     (if int (length (disk_name i)) \<ge> max_name cfg then (1, fs)
      else case io of
        Fopen_fails \<Rightarrow> (- 1, fs)
      | Fwrite_short n \<Rightarrow> (- 1, fs(disk_name i \<mapsto> take (min n (nat (disk_size cfg))) data))
      | Fclose_fails \<Rightarrow> (- 1, fs(disk_name i \<mapsto> take (nat (disk_size cfg)) data))
      | Io_ok \<Rightarrow> (0, fs(disk_name i \<mapsto> take (nat (disk_size cfg)) data)))"

text \<open>
  Whether block \<open>n\<close> lies inside the \<open>disk_size\<close> bytes of \<open>disk_data\<close>; outside, the
  pointer arithmetic and the copy of the source are undefined behaviour.
\<close>

definition block_in_range :: "config \<Rightarrow> int \<Rightarrow> bool" where
  "block_in_range cfg n \<longleftrightarrow> 0 \<le> n \<and> n * block_size cfg + block_size cfg \<le> disk_size cfg"

definition get_block :: "config \<Rightarrow> byte list \<Rightarrow> int \<Rightarrow> byte list" where
  "get_block cfg mem n = take (nat (block_size cfg)) (drop (nat (n * block_size cfg)) mem)"

definition put_block :: "config \<Rightarrow> byte list \<Rightarrow> int \<Rightarrow> byte list \<Rightarrow> byte list" where
  "put_block cfg mem n d =
     take (nat (n * block_size cfg)) mem @ take (nat (block_size cfg)) d
       @ drop (nat (n * block_size cfg) + nat (block_size cfg)) mem"

text \<open>
  Both sides move a block with one \<open>write\<close> and one \<open>read\<close> of \<open>block_size\<close> bytes,
  with no loop around the \<open>read\<close>. A \<open>read\<close> on a pipe returns what the pipe holds at
  that moment, at most its capacity. A block of at most \<open>pipe_buf\<close> bytes is written
  atomically and so is read whole; a block of the capacity or more is taken never to
  be (above the capacity the pipe cannot hold it, and at the capacity the tag and the
  block number share the pipe with it); in between it depends on the scheduling. When the read comes short it returns \<open>short_count\<close>
  bytes: how many exactly depends on the scheduling too, and the model takes a full pipe
  (one byte less than the block if the block would fit). Command tags and block
  numbers are a few bytes and always arrive whole.
\<close>

definition blocks_arrive_whole :: "config \<Rightarrow> bool" where
  "blocks_arrive_whole cfg \<longleftrightarrow>
     block_size cfg \<le> pipe_buf cfg \<or> (block_size cfg < pipe_capacity cfg \<and> writes_complete_first cfg)"

definition short_count :: "config \<Rightarrow> nat" where
  "short_count cfg = nat (min (pipe_capacity cfg) (block_size cfg - 1))"

text \<open>
  One pass through the body of the \<open>while (1)\<close> loop of \<open>start_disk\<close>, on the items
  waiting in the worker's inbound pipe. \<open>None\<close>: the worker blocks in a \<open>read\<close> because
  the message is not complete yet. Every \<open>break\<close> inside the \<open>switch\<close> leaves the
  \<open>switch\<close> only, so the loop goes on; the one \<open>break\<close> that leaves the loop is the
  failed read of the command tag, after which the worker calls \<open>checkpoint_and_wait\<close>
  (which writes no file of this worker; what it does to the other workers is
  \<open>worker_checkpoint_and_wait\<close> below) and exits with \<open>status\<close>. When the \<open>read\<close> of
  a payload comes short the worker sets \<open>status\<close>, does not copy, and goes on to read
  the rest of the payload as command tags: what those bytes decode to is outside this
  model, and the worker is no longer followed.
\<close>

definition disk_step :: "config \<Rightarrow> int \<Rightarrow> file_io \<Rightarrow> worker \<Rightarrow> filesys \<Rightarrow> (worker \<times> filesys) option" where
  "disk_step cfg i io w fs =
     (case to_disk_pipe w of
        [] \<Rightarrow> None
      | Eof # q \<Rightarrow>
          Some (w\<lparr>status := 1, proc := Exited 1, called_checkpoint_and_wait := True\<rparr>, fs)
      | Tag CMD_READ # q \<Rightarrow>
          (case q of
             [] \<Rightarrow> None
           | Idx n # q' \<Rightarrow>
               if block_in_range cfg n
               then Some (w\<lparr>to_disk_pipe := q', from_disk_pipe := from_disk_pipe w @ [get_block cfg (disk_data w) n]\<rparr>, fs)
               else Some (w\<lparr>to_disk_pipe := q', proc := Undefined_behaviour\<rparr>, fs)
           | Eof # q' \<Rightarrow> Some (w\<lparr>to_disk_pipe := q, status := 1\<rparr>, fs)
           | _ \<Rightarrow> Some (w\<lparr>proc := Misframed\<rparr>, fs))
      | Tag CMD_WRITE # q \<Rightarrow>
          (case q of
             [] \<Rightarrow> None
           | Idx n # q' \<Rightarrow>
               (case q' of
                  [] \<Rightarrow> None
                | Payload d # q'' \<Rightarrow>
                    if \<not> blocks_arrive_whole cfg
                    then Some (w\<lparr>to_disk_pipe := q'', status := 1, proc := Misframed\<rparr>, fs)
                    else if block_in_range cfg n
                    then Some (w\<lparr>to_disk_pipe := q'', disk_data := put_block cfg (disk_data w) n d\<rparr>, fs)
                    else Some (w\<lparr>to_disk_pipe := q'', proc := Undefined_behaviour\<rparr>, fs)
                | Eof # q'' \<Rightarrow> Some (w\<lparr>to_disk_pipe := q', status := 1\<rparr>, fs)
                | _ \<Rightarrow> Some (w\<lparr>proc := Misframed\<rparr>, fs))
           | Eof # q' \<Rightarrow> Some (w\<lparr>to_disk_pipe := q, status := 1\<rparr>, fs)
           | _ \<Rightarrow> Some (w\<lparr>proc := Misframed\<rparr>, fs))
      | Tag CMD_EXIT # q \<Rightarrow>
          Some (w\<lparr>to_disk_pipe := q, proc := Exited 0\<rparr>, snd (checkpoint_disk cfg io (disk_data w) i fs))
      | Tag (CMD_OTHER t) # q \<Rightarrow> Some (w\<lparr>to_disk_pipe := q, status := 1\<rparr>, fs)
      | _ \<Rightarrow> Some (w\<lparr>proc := Misframed\<rparr>, fs))"

text \<open>
  The command loop: the worker goes on as long as it is running and a complete message
  waits in its pipe; otherwise it stays blocked in \<open>read\<close> with its state as it is.
  (The controller keeps the read end of the reply pipe open for as long as it lives, so
  the worker's \<open>write\<close> of a block does not fail.)
\<close>

function disk_loop :: "config \<Rightarrow> int \<Rightarrow> file_io \<Rightarrow> worker \<Rightarrow> filesys \<Rightarrow> worker \<times> filesys" where
  "disk_loop cfg i io w fs =
     (if proc w \<noteq> Running then (w, fs)
      else case disk_step cfg i io w fs of
        None \<Rightarrow> (w, fs)
      | Some (w', fs') \<Rightarrow> if proc w' = Running then disk_loop cfg i io w' fs' else (w', fs'))"
  by pat_completeness auto
termination
  by (relation "measure (\<lambda>(cfg, i, io, w, fs). length (to_disk_pipe w))")
     (auto simp: disk_step_def split: list.splits wire.splits disk_command.splits if_splits)

declare disk_loop.simps [simp del]

text \<open>
  \<open>start_disk\<close> allocates \<open>disk_size\<close> zero bytes with \<open>calloc\<close> and enters the loop.
\<close>

definition fresh_disk :: "config \<Rightarrow> worker" where
  "fresh_disk cfg =
     \<lparr>disk_data = replicate (nat (disk_size cfg)) 0, status = 0, proc = Running,
      to_disk_pipe = [], from_disk_pipe = [], called_checkpoint_and_wait = False\<rparr>"

definition start_disk :: "config \<Rightarrow> int \<Rightarrow> file_io \<Rightarrow> wire list \<Rightarrow> filesys \<Rightarrow> worker \<times> filesys" where
  "start_disk cfg i io q fs = disk_loop cfg i io ((fresh_disk cfg)\<lparr>to_disk_pipe := q\<rparr>) fs"

section \<open>The controller's data path (controller.c)\<close>

text \<open>
  The array as the controller sees it after \<open>init_all_controllers\<close>: one worker per slot
  (slots \<open>0 .. num_disks - 1\<close> hold data, slot \<open>num_disks\<close> holds parity), each with its
  pipe pair, the file system, and a log of the controller's own \<open>write\<close> and \<open>read\<close>
  calls on the pipes that transferred data. Pipes are first-in first-out and a worker
  is sequential and deterministic, so what a worker ends up with does not depend on
  when it is scheduled; the model lets it run as soon as the controller has written.
\<close>

datatype event = Sent int wire | Received int "byte list"

record sys =
  disks :: "worker list"
  files :: filesys
  file_env :: file_io
  log :: "event list"

datatype 'a ret = Returns 'a | Blocks_forever

definition init_sys :: "config \<Rightarrow> sys" where
  "init_sys cfg =
     \<lparr>disks = replicate (nat (num_disks cfg + 1)) (fresh_disk cfg), files = Map.empty,
      file_env = Io_ok, log = []\<rparr>"

text \<open>
  \<open>write(controllers[k].to_disk[1], ...)\<close>: fails (SIGPIPE is ignored, so with EPIPE)
  when the worker of slot \<open>k\<close> is gone. A slot outside the array is an access outside
  \<open>controllers\<close>; it is modelled as a failing call.
\<close>

definition pipe_write :: "config \<Rightarrow> int \<Rightarrow> wire \<Rightarrow> sys \<Rightarrow> sys option" where
  "pipe_write cfg k item s =
     (if 0 \<le> k \<and> nat k < length (disks s) \<and> proc (disks s ! nat k) = Running then
        (let w = disks s ! nat k;
             r = disk_loop cfg k (file_env s) (w\<lparr>to_disk_pipe := to_disk_pipe w @ [item]\<rparr>) (files s)
         in Some (s\<lparr>disks := (disks s)[nat k := fst r], files := snd r,
                     log := log s @ [Sent k item]\<rparr>))
      else None)"

text \<open>
  \<open>read(controllers[k].from_disk[0], data, block_size)\<close>: takes the next block the
  worker has sent, whole or, for a block that does not arrive whole, only its first
  \<open>short_count\<close> bytes, the rest staying in the pipe. With nothing in the pipe the
  call fails if the worker is gone and never returns if the worker is alive (it is
  itself blocked in a \<open>read\<close>).
\<close>

datatype pipe_result = Got "byte list" sys | Read_short "byte list" sys | Read_fails | Read_blocks

definition pipe_read :: "config \<Rightarrow> int \<Rightarrow> sys \<Rightarrow> pipe_result" where
  "pipe_read cfg k s =
     (if 0 \<le> k \<and> nat k < length (disks s) then
        (let w = disks s ! nat k in
         case from_disk_pipe w of
           [] \<Rightarrow> if proc w = Running then Read_blocks else Read_fails
         | b # bs \<Rightarrow>
             if \<not> blocks_arrive_whole cfg
             then Read_short (take (short_count cfg) b)
                    (s\<lparr>disks := (disks s)[nat k := w\<lparr>from_disk_pipe := drop (short_count cfg) b # bs\<rparr>],
                       log := log s @ [Received k (take (short_count cfg) b)]\<rparr>)
             else if int (length b) = block_size cfg
             then Got b (s\<lparr>disks := (disks s)[nat k := w\<lparr>from_disk_pipe := bs\<rparr>],
                           log := log s @ [Received k b]\<rparr>)
             else Read_fails)
      else Read_fails)"

text \<open>
  \<open>read_block_from_disk\<close>. A buffer is \<open>None\<close> for a NULL pointer and otherwise the
  bytes it holds (at least \<open>block_size\<close> of them); the result is the return value, the
  buffer afterwards and the system afterwards.
\<close>

definition read_block_from_disk ::
    "config \<Rightarrow> int \<Rightarrow> byte list option \<Rightarrow> int \<Rightarrow> sys \<Rightarrow> int ret \<times> byte list option \<times> sys" where
  "read_block_from_disk cfg block_num data parity_flag s =
     (case data of
        None \<Rightarrow> (Returns (- 1), None, s)
      | Some buf \<Rightarrow>
          (let disk_num = (if parity_flag = 1 then num_disks cfg else block_num smod num_disks cfg);
               block_num' = block_num sdiv num_disks cfg
           in case pipe_write cfg disk_num (Tag CMD_READ) s of
                None \<Rightarrow> (Returns (- 1), data, s)
              | Some s1 \<Rightarrow>
                  (case pipe_write cfg disk_num (Idx block_num') s1 of
                     None \<Rightarrow> (Returns (- 1), data, s1)
                   | Some s2 \<Rightarrow>
                       (case pipe_read cfg disk_num s2 of
                          Read_fails \<Rightarrow> (Returns (- 1), data, s2)
                        | Read_blocks \<Rightarrow> (Blocks_forever, data, s2)
                        | Read_short b s3 \<Rightarrow>
                            (Returns (- 1), Some (b @ drop (length b) buf), s3)
                        | Got b s3 \<Rightarrow>
                            (Returns 0, Some (b @ drop (nat (block_size cfg)) buf), s3)))))"

text \<open>\<open>write_block_to_disk\<close>: three writes and no read; the worker sends no reply.\<close>

definition write_block_to_disk ::
    "config \<Rightarrow> int \<Rightarrow> byte list option \<Rightarrow> int \<Rightarrow> sys \<Rightarrow> int \<times> sys" where
  "write_block_to_disk cfg block_num data parity_flag s =
     (case data of
        None \<Rightarrow> (- 1, s)
      | Some buf \<Rightarrow>
          (let disk_num = (if parity_flag = 1 then num_disks cfg else block_num smod num_disks cfg);
               block_num' = block_num sdiv num_disks cfg
           in case pipe_write cfg disk_num (Tag CMD_WRITE) s of
                None \<Rightarrow> (- 1, s)
              | Some s1 \<Rightarrow>
                  (case pipe_write cfg disk_num (Idx block_num') s1 of
                     None \<Rightarrow> (- 1, s1)
                   | Some s2 \<Rightarrow>
                       (case pipe_write cfg disk_num (Payload (take (nat (block_size cfg)) buf)) s2 of
                          None \<Rightarrow> (- 1, s2)
                        | Some s3 \<Rightarrow> (0, s3)))))"

text \<open>\<open>parity_data[j] ^= temp_data[j]\<close> for \<open>j < block_size\<close>.\<close>

definition xor_block :: "config \<Rightarrow> byte list \<Rightarrow> byte list \<Rightarrow> byte list" where
  "xor_block cfg p t = map (\<lambda>(a, b). a XOR b) (zip p (take (nat (block_size cfg)) t))"

text \<open>
  The loop \<open>for (i = 0; i < num_disks; i++)\<close> of \<open>write_block\<close>, over the values of
  \<open>i\<close> still to come. Each pass calls \<open>read_block_from_disk(i, temp_data, 0)\<close>: the
  first argument is \<open>i\<close> itself. (The \<open>malloc\<close>ed \<open>temp_data\<close> is overwritten by a
  successful read; \<open>malloc\<close> and \<open>calloc\<close> are taken to succeed.)
\<close>

fun parity_loop :: "config \<Rightarrow> int \<Rightarrow> int list \<Rightarrow> byte list \<Rightarrow> sys \<Rightarrow> int ret \<times> byte list \<times> sys" where
  "parity_loop cfg disk_num [] parity_data s = (Returns 0, parity_data, s)"
| "parity_loop cfg disk_num (i # rest) parity_data s =
     (if i \<noteq> disk_num then
        (case read_block_from_disk cfg i (Some (replicate (nat (block_size cfg)) 0)) 0 s of
           (Blocks_forever, temp_data, s') \<Rightarrow> (Blocks_forever, parity_data, s')
         | (Returns r, temp_data, s') \<Rightarrow>
             if r \<noteq> 0 then (Returns (- 1), parity_data, s')
             else parity_loop cfg disk_num rest
                    (xor_block cfg parity_data (case temp_data of None \<Rightarrow> [] | Some t \<Rightarrow> t)) s')
      else parity_loop cfg disk_num rest parity_data s)"

text \<open>
  The value of \<open>parity_flag\<close> that \<open>write_block\<close> computes. (Here and below
  \<open>num_disks\<close> and \<open>block_size\<close> are divisors: the C code has no defined behaviour
  when one is zero, and the properties assume a geometry where none is.)
\<close>

definition write_block_parity_flag :: "config \<Rightarrow> int \<Rightarrow> int" where
  "write_block_parity_flag cfg block_num =
     (if block_num smod num_disks cfg = num_disks cfg then 1 else 0)"

text \<open>
  The body of \<open>if (parity_flag == 0)\<close> in \<open>write_block\<close>: the read loop, the XOR
  with \<open>data\<close>, and \<open>write_block_to_disk(stripe, parity_data, 1)\<close>.
\<close>

definition update_parity :: "config \<Rightarrow> int \<Rightarrow> int \<Rightarrow> byte list \<Rightarrow> sys \<Rightarrow> int ret \<times> sys" where
  "update_parity cfg disk_num stripe buf s1 =
     (case parity_loop cfg disk_num [0 .. num_disks cfg - 1]
             (replicate (nat (block_size cfg)) 0) s1 of
        (Blocks_forever, parity_data, s2) \<Rightarrow> (Blocks_forever, s2)
      | (Returns r, parity_data, s2) \<Rightarrow>
          if r \<noteq> 0 then (Returns (- 1), s2)
          else
            (case write_block_to_disk cfg stripe (Some (xor_block cfg parity_data buf)) 1 s2 of
               (r', s3) \<Rightarrow> if r' \<noteq> 0 then (Returns (- 1), s3) else (Returns 0, s3)))"

definition write_block :: "config \<Rightarrow> int \<Rightarrow> byte list option \<Rightarrow> sys \<Rightarrow> int ret \<times> sys" where
  "write_block cfg block_num data s =
     (case data of
        None \<Rightarrow> (Returns (- 1), s)
      | Some buf \<Rightarrow>
          if block_num < 0 \<or> block_num \<ge> disk_size cfg sdiv block_size cfg then (Returns (- 1), s)
          else
            (let disk_num = block_num smod num_disks cfg;
                 stripe = block_num sdiv num_disks cfg;
                 parity_flag = write_block_parity_flag cfg block_num
             in case write_block_to_disk cfg block_num data parity_flag s of
                  (r, s1) \<Rightarrow>
                    if r \<noteq> 0 then (Returns (- 1), s1)
                    else if parity_flag = 0 then update_parity cfg disk_num stripe buf s1
                    else (Returns 0, s1)))"

text \<open>\<open>read_block\<close>: \<open>None\<close> is the NULL result, otherwise the buffer as filled.\<close>

definition read_block :: "config \<Rightarrow> int \<Rightarrow> byte list option \<Rightarrow> sys \<Rightarrow> byte list option ret \<times> sys" where
  "read_block cfg block_num data s =
     (case data of
        None \<Rightarrow> (Returns None, s)
      | Some buf \<Rightarrow>
          if block_num < 0 \<or> block_num \<ge> disk_size cfg sdiv block_size cfg then (Returns None, s)
          else
            (case read_block_from_disk cfg block_num data 0 s of
               (Blocks_forever, data', s') \<Rightarrow> (Blocks_forever, s')
             | (Returns r, data', s') \<Rightarrow>
                 if r \<noteq> 0 then (Returns None, s') else (Returns data', s')))"



text \<open>
  The call of \<open>checkpoint_and_wait\<close> that a worker makes on its failure path, after a
  failed read of a command tag (\<open>worker_read_fails\<close>). The worker of slot \<open>i\<close> was
  forked by \<open>init_disk\<close> when the controller held the write ends of the pipes to the
  slots \<open>0 .. i - 1\<close>, and \<open>init_disk\<close> does not close them in the child: through its
  copy of \<open>controllers\<close> the worker sends an EXIT tag to each of those workers, which
  checkpoint and exit. Its own write end it has closed, and the records of the later
  slots were not yet filled in when it was forked (what a \<open>write\<close> to such a descriptor
  does is outside the model). It has no child, so its \<open>wait\<close> calls return at once,
  and it exits with \<open>status\<close> without a file of its own. These writes are the
  worker's, not the controller's, and are not in the log.
\<close>

definition worker_pipe_write :: "config \<Rightarrow> int \<Rightarrow> wire \<Rightarrow> sys \<Rightarrow> sys option" where
  "worker_pipe_write cfg k item s =
     (if 0 \<le> k \<and> nat k < length (disks s) \<and> proc (disks s ! nat k) = Running then
        (let w = disks s ! nat k;
             r = disk_loop cfg k (file_env s) (w\<lparr>to_disk_pipe := to_disk_pipe w @ [item]\<rparr>) (files s)
         in Some (s\<lparr>disks := (disks s)[nat k := fst r], files := snd r\<rparr>))
      else None)"

fun worker_checkpoint_and_wait :: "config \<Rightarrow> int list \<Rightarrow> sys \<Rightarrow> sys" where
  "worker_checkpoint_and_wait cfg [] s = s"
| "worker_checkpoint_and_wait cfg (j # rest) s =
     (case worker_pipe_write cfg j (Tag CMD_EXIT) s of
        None \<Rightarrow> worker_checkpoint_and_wait cfg rest s
      | Some s' \<Rightarrow> worker_checkpoint_and_wait cfg rest s')"

definition worker_read_fails :: "config \<Rightarrow> int \<Rightarrow> sys \<Rightarrow> sys" where
  "worker_read_fails cfg i s =
     (if 0 \<le> i \<and> nat i < length (disks s) \<and> proc (disks s ! nat i) = Running then
        (let w = disks s ! nat i;
             r = disk_loop cfg i (file_env s) (w\<lparr>to_disk_pipe := to_disk_pipe w @ [Eof]\<rparr>) (files s);
             s1 = s\<lparr>disks := (disks s)[nat i := fst r], files := snd r\<rparr>
         in if called_checkpoint_and_wait (fst r)
            then worker_checkpoint_and_wait cfg [0 .. i - 1] s1 else s1)
      else s)"

subsection \<open>What the claims observe\<close>

text \<open>The block at local index \<open>k\<close> of slot \<open>d\<close>, and the XOR of the data blocks of stripe \<open>k\<close>.\<close>

definition slot_block :: "config \<Rightarrow> sys \<Rightarrow> nat \<Rightarrow> int \<Rightarrow> byte list" where
  "slot_block cfg s d k = get_block cfg (disk_data (disks s ! d)) k"

definition stripe_xor :: "config \<Rightarrow> sys \<Rightarrow> int \<Rightarrow> byte list" where
  "stripe_xor cfg s k =
     foldl (xor_block cfg) (replicate (nat (block_size cfg)) 0)
       (map (\<lambda>d. slot_block cfg s d k) [0 ..< nat (num_disks cfg)])"

definition parity_ok :: "config \<Rightarrow> sys \<Rightarrow> int \<Rightarrow> bool" where
  "parity_ok cfg s k \<longleftrightarrow> slot_block cfg s (nat (num_disks cfg)) k = stripe_xor cfg s k"



definition reads_log :: "config \<Rightarrow> sys \<Rightarrow> int list \<Rightarrow> event list" where
  "reads_log cfg s js =
     concat (map (\<lambda>j. [Sent j (Tag CMD_READ), Sent j (Idx 0),
                        Received j (slot_block cfg s (nat j) 0)]) js)"

definition reads_xor :: "config \<Rightarrow> sys \<Rightarrow> byte list \<Rightarrow> int list \<Rightarrow> byte list" where
  "reads_xor cfg s p js = foldl (xor_block cfg) p (map (\<lambda>j. slot_block cfg s (nat j) 0) js)"

definition all_running :: "sys \<Rightarrow> bool" where
  "all_running s \<longleftrightarrow> list_all (\<lambda>w. proc w = Running) (disks s)"

text \<open>
  A geometry the code can run with (both divisions are defined), and an array between
  two calls: one worker per slot, every disk of \<open>disk_size\<close> bytes, nothing in flight.
\<close>

definition geometry_ok :: "config \<Rightarrow> bool" where
  "geometry_ok cfg \<longleftrightarrow> 0 < num_disks cfg \<and> 0 < block_size cfg \<and> 0 \<le> disk_size cfg"

definition quiet_worker :: "config \<Rightarrow> worker \<Rightarrow> bool" where
  "quiet_worker cfg w \<longleftrightarrow>
     int (length (disk_data w)) = disk_size cfg \<and> to_disk_pipe w = [] \<and> from_disk_pipe w = []"

definition array_ok :: "config \<Rightarrow> sys \<Rightarrow> bool" where
  "array_ok cfg s \<longleftrightarrow>
     int (length (disks s)) = num_disks cfg + 1 \<and> list_all (quiet_worker cfg) (disks s)"

text \<open>
  The log read as a request/response discipline, by a reader that goes through it
  entry by entry. \<open>strict_step\<close>: every complete command message (READ with its block
  number, WRITE with block number and payload, EXIT) must be followed by a block
  received from the same slot before anything else is sent. \<open>actual_step\<close>: that holds
  for READ only; after a complete WRITE and after EXIT the next message may follow.
\<close>

datatype phase = Idle | Read_tag int | Write_tag int | Write_idx int | Awaiting int | Violated


definition actual_step :: "phase \<Rightarrow> event \<Rightarrow> phase" where
  "actual_step ph e =
     (case ph of
        Idle \<Rightarrow>
          (case e of
             Sent k (Tag CMD_READ) \<Rightarrow> Read_tag k
           | Sent k (Tag CMD_WRITE) \<Rightarrow> Write_tag k
           | Sent k (Tag CMD_EXIT) \<Rightarrow> Idle
           | _ \<Rightarrow> Violated)
      | Read_tag k \<Rightarrow> (case e of Sent k1 (Idx n) \<Rightarrow> if k1 = k then Awaiting k else Violated | _ \<Rightarrow> Violated)
      | Write_tag k \<Rightarrow> (case e of Sent k1 (Idx n) \<Rightarrow> if k1 = k then Write_idx k else Violated | _ \<Rightarrow> Violated)
      | Write_idx k \<Rightarrow> (case e of Sent k1 (Payload d) \<Rightarrow> if k1 = k then Idle else Violated | _ \<Rightarrow> Violated)
      | Awaiting k \<Rightarrow> (case e of Received k1 b \<Rightarrow> if k1 = k then Idle else Violated | _ \<Rightarrow> Violated)
      | Violated \<Rightarrow> Violated)"



section \<open>Processes and descriptors (controller.c)\<close>

text \<open>
  A descriptor table maps descriptor numbers to what they are open on; its length is
  the limit on open descriptors. \<open>pipe\<close> takes the two lowest free numbers (the read
  end first) and fails when there are not two; \<open>close\<close> frees a number; \<open>fork\<close> gives
  the child a copy of the table and fails at a limit on live children.
\<close>

datatype endpoint = Std | Pipe_read nat | Pipe_write nat

type_synonym fd_table = "endpoint option list"

text \<open>
  \<open>disk_controller_t\<close> as the code uses it: \<open>pid\<close>, \<open>to_disk[2]\<close>, \<open>from_disk[2]\<close>
  (element 0 is the first, element 1 the second component).
\<close>

record disk_controller =
  pid :: int
  to_disk :: "nat \<times> nat"
  from_disk :: "nat \<times> nat"

text \<open>A worker process at the moment it calls \<open>start_disk(id, to_parent, from_parent)\<close>.\<close>

record child =
  child_pid :: int
  child_id :: int
  child_fds :: fd_table
  to_parent :: nat
  from_parent :: nat
  alive :: bool

record os =
  fds :: fd_table
  controllers :: "disk_controller list"
  controllers_allocated :: bool
  children :: "child list"
  next_pipe :: nat
  next_pid :: int
  max_children :: nat

definition free_fds :: "fd_table \<Rightarrow> nat list" where
  "free_fds t = filter (\<lambda>i. t ! i = None) [0 ..< length t]"

definition sys_pipe :: "os \<Rightarrow> ((nat \<times> nat) \<times> os) option" where
  "sys_pipe st =
     (case free_fds (fds st) of
        r # w # _ \<Rightarrow>
          Some ((r, w),
                st\<lparr>fds := (fds st)[r := Some (Pipe_read (next_pipe st)),
                                     w := Some (Pipe_write (next_pipe st))],
                    next_pipe := Suc (next_pipe st)\<rparr>)
      | _ \<Rightarrow> None)"

definition sys_close :: "nat \<Rightarrow> fd_table \<Rightarrow> fd_table" where
  "sys_close fd t = t[fd := None]"

definition fork_ok :: "os \<Rightarrow> bool" where
  "fork_ok st \<longleftrightarrow> length (filter alive (children st)) < max_children st"

text \<open>Assignments to the fields of \<open>controllers[num]\<close>.\<close>

definition set_to_disk :: "int \<Rightarrow> nat \<times> nat \<Rightarrow> os \<Rightarrow> os" where
  "set_to_disk num p st =
     st\<lparr>controllers := (controllers st)[nat num := (controllers st ! nat num)\<lparr>to_disk := p\<rparr>]\<rparr>"

definition set_from_disk :: "int \<Rightarrow> nat \<times> nat \<Rightarrow> os \<Rightarrow> os" where
  "set_from_disk num p st =
     st\<lparr>controllers := (controllers st)[nat num := (controllers st ! nat num)\<lparr>from_disk := p\<rparr>]\<rparr>"

definition set_pid :: "int \<Rightarrow> int \<Rightarrow> os \<Rightarrow> os" where
  "set_pid num v st =
     st\<lparr>controllers := (controllers st)[nat num := (controllers st ! nat num)\<lparr>pid := v\<rparr>]\<rparr>"

text \<open>
  The two \<open>pipe\<close> calls that open \<open>init_disk\<close> and \<open>restart_disk\<close>; the second is not
  made when the first fails, and a first pipe stays open when the second fails.
\<close>

definition make_pipes :: "int \<Rightarrow> os \<Rightarrow> os + os" where
  "make_pipes num st =
     (case sys_pipe st of
        None \<Rightarrow> Inl st
      | Some (p1, st1) \<Rightarrow>
          (case sys_pipe (set_to_disk num p1 st1) of
             None \<Rightarrow> Inl (set_to_disk num p1 st1)
           | Some (p2, st2) \<Rightarrow> Inr (set_from_disk num p2 st2)))"

text \<open>
  \<open>init_disk\<close>, seen from the controller: the return value and the system afterwards
  (\<open>num\<close> is a slot of the allocated array; outside it the C code has no defined
  behaviour). The child closes \<open>to_disk[1]\<close> and \<open>from_disk[0]\<close> and calls
  \<open>start_disk(num, from_disk[1], to_disk[0])\<close>; the parent closes \<open>to_disk[0]\<close> and
  \<open>from_disk[1]\<close>.
\<close>

definition init_disk :: "int \<Rightarrow> os \<Rightarrow> int \<times> os" where
  "init_disk num st =
     (case make_pipes num st of
        Inl st' \<Rightarrow> (- 1, st')
      | Inr st2 \<Rightarrow>
          if \<not> fork_ok st2 then (- 1, set_pid num (- 1) st2)
          else
            (let c = controllers st2 ! nat num;
                 worker_proc =
                   \<lparr>child_pid = next_pid st2, child_id = num,
                    child_fds = sys_close (fst (from_disk c)) (sys_close (snd (to_disk c)) (fds st2)),
                    to_parent = snd (from_disk c), from_parent = fst (to_disk c), alive = True\<rparr>
             in (0, (set_pid num (next_pid st2) st2)
                      \<lparr>fds := sys_close (snd (from_disk c)) (sys_close (fst (to_disk c)) (fds st2)),
                       children := children st2 @ [worker_proc],
                       next_pid := next_pid st2 + 1\<rparr>)))"

text \<open>
  The child's loop in \<open>restart_disk\<close> over \<open>i = 0 .. num_disks\<close>, on the child's copy
  of the descriptor table. (A slot outside \<open>controllers\<close> is skipped.)
\<close>

fun restart_close_loop :: "disk_controller list \<Rightarrow> int \<Rightarrow> int list \<Rightarrow> fd_table \<Rightarrow> fd_table" where
  "restart_close_loop cs num [] t = t"
| "restart_close_loop cs num (i # rest) t =
     (if 0 \<le> i \<and> nat i < length cs then
        (if i \<noteq> num then
           restart_close_loop cs num rest
             (sys_close (fst (from_disk (cs ! nat i))) (sys_close (snd (to_disk (cs ! nat i))) t))
         else
           restart_close_loop cs num rest
             (sys_close (snd (to_disk (cs ! nat i)))
               (sys_close (fst (from_disk (cs ! nat i)))
                 (sys_close (snd (from_disk (cs ! nat i)))
                   (sys_close (fst (to_disk (cs ! nat i))) t)))))
      else restart_close_loop cs num rest t)"

definition restart_disk :: "config \<Rightarrow> int \<Rightarrow> os \<Rightarrow> int \<times> os" where
  "restart_disk cfg num st =
     (case make_pipes num st of
        Inl st' \<Rightarrow> (- 1, st')
      | Inr st2 \<Rightarrow>
          if \<not> fork_ok st2 then (- 1, set_pid num (- 1) st2)
          else
            (let c = controllers st2 ! nat num;
                 worker_proc =
                   \<lparr>child_pid = next_pid st2, child_id = num,
                    child_fds = restart_close_loop (controllers st2) num [0 .. num_disks cfg] (fds st2),
                    to_parent = snd (from_disk c), from_parent = fst (to_disk c), alive = True\<rparr>
             in (0, (set_pid num (next_pid st2) st2)
                      \<lparr>fds := sys_close (snd (from_disk c)) (sys_close (fst (to_disk c)) (fds st2)),
                       children := children st2 @ [worker_proc],
                       next_pid := next_pid st2 + 1\<rparr>)))"

text \<open>
  \<open>init_all_controllers\<close>. The second argument is what \<open>malloc\<close> returns: \<open>None\<close> for
  NULL, otherwise \<open>total_disks\<close> records of arbitrary content. On a failing
  \<open>init_disk\<close> the function calls \<open>free(controllers)\<close> and returns; it makes no other
  call.
\<close>

fun init_loop :: "int list \<Rightarrow> os \<Rightarrow> int \<times> os" where
  "init_loop [] st = (0, st)"
| "init_loop (i # rest) st =
     (case init_disk i st of
        (r, st') \<Rightarrow>
          if r = - 1 then (- 1, st'\<lparr>controllers_allocated := False\<rparr>)
          else init_loop rest st')"

definition init_all_controllers :: "int \<Rightarrow> disk_controller list option \<Rightarrow> os \<Rightarrow> int \<times> os" where
  "init_all_controllers total_disks mem st =
     (case mem of
        None \<Rightarrow> (- 1, st\<lparr>controllers := [], controllers_allocated := False\<rparr>)
      | Some cs \<Rightarrow>
          init_loop [0 .. total_disks - 1] (st\<lparr>controllers := cs, controllers_allocated := True\<rparr>))"

text \<open>
  \<open>simulate_disk_failure\<close>: the worker is killed and reaped (its descriptors close with
  it); the controller's own descriptors and records are not touched.
\<close>

definition simulate_disk_failure :: "int \<Rightarrow> os \<Rightarrow> os" where
  "simulate_disk_failure disk_num st =
     st\<lparr>children :=
          map (\<lambda>c. if child_pid c = pid (controllers st ! nat disk_num) \<and> alive c
                   then c\<lparr>alive := False, child_fds := map (\<lambda>e. None) (child_fds c)\<rparr> else c)
              (children st)\<rparr>"

text \<open>\<open>restore_disk_process\<close>: \<open>None\<close> when the controller calls \<open>exit(1)\<close>.\<close>

definition restore_disk_process :: "config \<Rightarrow> int \<Rightarrow> os \<Rightarrow> os option" where
  "restore_disk_process cfg disk_num st =
     (case restart_disk cfg disk_num st of (r, st') \<Rightarrow> if r = - 1 then None else Some st')"

text \<open>
  The controller as \<open>main\<close> starts: standard input, output and error open, no worker.
\<close>

definition boot :: "nat \<Rightarrow> nat \<Rightarrow> os" where
  "boot fd_limit child_limit =
     \<lparr>fds = [Some Std, Some Std, Some Std] @ replicate (fd_limit - 3) None,
      controllers = [], controllers_allocated = False, children = [],
      next_pipe = 0, next_pid = 1, max_children = child_limit\<rparr>"

definition blank :: disk_controller where
  "blank = \<lparr>pid = 0, to_disk = (0, 0), from_disk = (0, 0)\<rparr>"

text \<open>
  What the claims on descriptors observe. A worker needs the read end of its
  controller-to-worker pipe at \<open>from_parent\<close> and the write end of its
  worker-to-controller pipe at \<open>to_parent\<close>. Nothing of an array is live when no
  worker runs and the controller holds no pipe end.
\<close>

definition is_pipe_end :: "endpoint option \<Rightarrow> bool" where
  "is_pipe_end e = (case e of Some (Pipe_read p) \<Rightarrow> True | Some (Pipe_write p) \<Rightarrow> True | _ \<Rightarrow> False)"

definition fd_at :: "fd_table \<Rightarrow> nat \<Rightarrow> endpoint option" where
  "fd_at t fd = (if fd < length t then t ! fd else None)"

definition holds_needed_ends :: "child \<Rightarrow> bool" where
  "holds_needed_ends c \<longleftrightarrow>
     (case fd_at (child_fds c) (from_parent c) of Some (Pipe_read p) \<Rightarrow> True | _ \<Rightarrow> False) \<and>
     (case fd_at (child_fds c) (to_parent c) of Some (Pipe_write p) \<Rightarrow> True | _ \<Rightarrow> False)"

definition open_pipe_ends :: "fd_table \<Rightarrow> nat list" where
  "open_pipe_ends t = filter (\<lambda>i. is_pipe_end (t ! i)) [0 ..< length t]"

definition nothing_live :: "os \<Rightarrow> bool" where
  "nothing_live st \<longleftrightarrow> filter alive (children st) = [] \<and> open_pipe_ends (fds st) = []"

subsection \<open>The scenario of the specification\<close>

text \<open>Three data disks, blocks of 4 bytes, disks of 16 bytes.\<close>

definition scenario_cfg :: config where
  "scenario_cfg =
     \<lparr>num_disks = 3, block_size = 4, disk_size = 16, max_name = 256,
      pipe_buf = 4096, pipe_capacity = 65536, writes_complete_first = False\<rparr>"

definition block_of :: "byte \<Rightarrow> byte list" where
  "block_of c = replicate 4 c"

definition after_A :: sys where
  "after_A = snd (write_block scenario_cfg 0 (Some (block_of 65)) (init_sys scenario_cfg))"

definition after_B :: sys where
  "after_B = snd (write_block scenario_cfg 1 (Some (block_of 66)) after_A)"

definition after_C :: sys where
  "after_C = snd (write_block scenario_cfg 2 (Some (block_of 67)) after_B)"


text \<open>
  One data disk and blocks of 131072 bytes, twice what a pipe holds, two blocks to a
  disk; the payload is 131072 times the byte 0x41.
\<close>

definition big_cfg :: config where
  "big_cfg =
     \<lparr>num_disks = 1, block_size = 131072, disk_size = 262144, max_name = 256,
      pipe_buf = 4096, pipe_capacity = 65536, writes_complete_first = True\<rparr>"

definition big_block :: "byte list" where
  "big_block = replicate 131072 65"

definition after_big_write :: sys where
  "after_big_write = snd (write_block big_cfg 0 (Some big_block) (init_sys big_cfg))"

text \<open>A write to global block 3 (disk 0, stripe 1) on the fresh array.\<close>

definition after_D :: sys where
  "after_D = snd (write_block scenario_cfg 3 (Some (block_of 68)) (init_sys scenario_cfg))"

text \<open>
  Four slots are initialised, the worker of slot 1 is killed, and slot 1 is restarted.
\<close>

definition restore_scenario :: "int \<times> os" where
  "restore_scenario =
     restart_disk scenario_cfg 1
       (simulate_disk_failure 1
         (snd (init_all_controllers 4 (Some (replicate 4 blank)) (boot 32 8))))"

text \<open>
  The controller holds the other ends of a worker's two pipes: the write end of the
  pipe the worker reads at \<open>from_parent\<close> and the read end of the pipe the worker
  writes at \<open>to_parent\<close>. A table keeps what another has open when every descriptor
  open in the first is the same in the second.
\<close>

definition controller_holds_peer :: "os \<Rightarrow> child \<Rightarrow> bool" where
  "controller_holds_peer st c \<longleftrightarrow>
     (case fd_at (child_fds c) (from_parent c) of
        Some (Pipe_read p) \<Rightarrow> Some (Pipe_write p) \<in> set (fds st) | _ \<Rightarrow> False) \<and>
     (case fd_at (child_fds c) (to_parent c) of
        Some (Pipe_write q) \<Rightarrow> Some (Pipe_read q) \<in> set (fds st) | _ \<Rightarrow> False)"

definition keeps_open :: "fd_table \<Rightarrow> fd_table \<Rightarrow> bool" where
  "keeps_open t t' \<longleftrightarrow>
     length t' = length t \<and> list_all (\<lambda>fd. t ! fd = None \<or> t' ! fd = t ! fd) [0 ..< length t]"

text \<open>Spawning slot \<open>num\<close> fails: one of the two \<open>pipe\<close> calls or the \<open>fork\<close> does.\<close>

definition spawn_fails :: "int \<Rightarrow> os \<Rightarrow> bool" where
  "spawn_fails num st \<longleftrightarrow> (case make_pipes num st of Inl st' \<Rightarrow> True | Inr st2 \<Rightarrow> \<not> fork_ok st2)"

text \<open>
  Two slots are to be initialised where only one child process can be created: the
  second \<open>fork\<close> fails.
\<close>

definition failed_init :: "int \<times> os" where
  "failed_init = init_all_controllers 2 (Some (replicate 2 blank)) (boot 32 1)"

section \<open>Properties\<close>

subsection \<open>Evaluation rules\<close>

lemmas data_path_defs =
  write_block_def update_parity_def write_block_parity_flag_def write_block_to_disk_def
  read_block_def read_block_from_disk_def pipe_write_def pipe_read_def
  disk_loop.simps disk_step_def block_in_range_def get_block_def put_block_def xor_block_def
  blocks_arrive_whole_def short_count_def
  init_sys_def fresh_disk_def signed_divide_int_def signed_modulo_int_def Let_def upto.simps

lemma upt_3: "[0 ..< 3] = [0 :: nat, 1, 2]"
  by (simp add: upt_rec numeral_3_eq_3 numeral_2_eq_2)

lemma disk_name_0: "disk_name 0 = ''disk_0.dat''"
  by (simp add: disk_name_def show_int_def digits.simps)

lemma disk_name_1: "disk_name 1 = ''disk_1.dat''"
  by (simp add: disk_name_def show_int_def digits.simps)



lemma after_A_eq:
  "write_block scenario_cfg 0 (Some (block_of 65)) (init_sys scenario_cfg) = (Returns 0, after_A)"
  unfolding after_A_def by (simp add: scenario_cfg_def block_of_def data_path_defs)

lemma after_B_eq:
  "write_block scenario_cfg 1 (Some (block_of 66)) after_A = (Returns 0, after_B)"
  unfolding after_B_def after_A_def by (simp add: scenario_cfg_def block_of_def data_path_defs)

lemma after_C_eq:
  "write_block scenario_cfg 2 (Some (block_of 67)) after_B = (Returns 0, after_C)"
  unfolding after_C_def after_B_def after_A_def
  by (simp add: scenario_cfg_def block_of_def data_path_defs)


subsection \<open>The worker loop and the helpers of the data path\<close>

lemma disk_loop_blocked:
  "proc w = Running \<Longrightarrow> disk_step cfg i io w fs = None \<Longrightarrow> disk_loop cfg i io w fs = (w, fs)"
  by (subst disk_loop.simps) simp

lemma disk_loop_served:
  "proc w = Running \<Longrightarrow> disk_step cfg i io w fs = Some (w', fs') \<Longrightarrow> proc w' = Running
     \<Longrightarrow> disk_step cfg i io w' fs' = None \<Longrightarrow> disk_loop cfg i io w fs = (w', fs')"
  by (subst disk_loop.simps) (simp add: disk_loop_blocked)


lemma block_fits:
  assumes "block_in_range cfg n" "int (length mem) = disk_size cfg" "0 < block_size cfg"
  shows "nat (n * block_size cfg) + nat (block_size cfg) \<le> length mem"
proof -
  from assms have nn: "0 \<le> n * block_size cfg" "0 \<le> block_size cfg"
    by (simp_all add: block_in_range_def)
  from assms have "n * block_size cfg + block_size cfg \<le> int (length mem)"
    by (simp add: block_in_range_def)
  then have "nat (n * block_size cfg + block_size cfg) \<le> length mem" by linarith
  then show ?thesis using nn by (simp add: nat_add_distrib)
qed

lemma get_block_length:
  assumes "block_in_range cfg n" "int (length mem) = disk_size cfg" "0 < block_size cfg"
  shows "int (length (get_block cfg mem n)) = block_size cfg"
  using block_fits [OF assms] assms(3) by (simp add: get_block_def)

lemma put_block_length:
  assumes "block_in_range cfg n" "int (length mem) = disk_size cfg" "0 < block_size cfg"
    and "block_size cfg \<le> int (length d)"
  shows "length (put_block cfg mem n d) = length mem"
  using block_fits [OF assms(1-3)] assms(3,4) by (simp add: put_block_def)

lemma get_put_block:
  assumes "block_in_range cfg n" "int (length mem) = disk_size cfg" "0 < block_size cfg"
    and "block_size cfg \<le> int (length d)"
  shows "get_block cfg (put_block cfg mem n d) n = take (nat (block_size cfg)) d"
  using block_fits [OF assms(1-3)] assms(3,4) by (simp add: put_block_def get_block_def)

text \<open>Messages to a worker that is between two commands.\<close>

lemma pipe_write_dead:
  "\<not> (0 \<le> k \<and> nat k < length (disks s) \<and> proc (disks s ! nat k) = Running)
     \<Longrightarrow> pipe_write cfg k item s = None"
  by (auto simp: pipe_write_def)

lemma write_block_to_disk_dead:
  assumes "(if pf = 1 then num_disks cfg else bn smod num_disks cfg) = k"
    and "\<not> (0 \<le> k \<and> nat k < length (disks s) \<and> proc (disks s ! nat k) = Running)"
  shows "write_block_to_disk cfg bn (Some buf) pf s = (- 1, s)"
  using assms by (auto simp: write_block_to_disk_def pipe_write_def Let_def)

lemma write_block_to_disk_alive:
  assumes "(if pf = 1 then num_disks cfg else bn smod num_disks cfg) = k"
    and "0 \<le> k" "nat k < length (disks s)" "proc (disks s ! nat k) = Running"
    and "to_disk_pipe (disks s ! nat k) = []"
    and "block_in_range cfg (bn sdiv num_disks cfg)"
    and "blocks_arrive_whole cfg"
  shows "write_block_to_disk cfg bn (Some buf) pf s =
     (0, s\<lparr>disks := (disks s)[nat k := (disks s ! nat k)
                \<lparr>disk_data := put_block cfg (disk_data (disks s ! nat k)) (bn sdiv num_disks cfg)
                                (take (nat (block_size cfg)) buf)\<rparr>],
            log := log s @ [Sent k (Tag CMD_WRITE), Sent k (Idx (bn sdiv num_disks cfg)),
                            Sent k (Payload (take (nat (block_size cfg)) buf))]\<rparr>)"
proof -
  let ?w = "disks s ! nat k"
  let ?n = "bn sdiv num_disks cfg"
  let ?d = "take (nat (block_size cfg)) buf"
  have w1: "disk_loop cfg k (file_env s) (?w\<lparr>to_disk_pipe := [Tag CMD_WRITE]\<rparr>) (files s)
              = (?w\<lparr>to_disk_pipe := [Tag CMD_WRITE]\<rparr>, files s)"
    using assms(4) by (intro disk_loop_blocked) (simp_all add: disk_step_def)
  have w2: "disk_loop cfg k (file_env s) (?w\<lparr>to_disk_pipe := [Tag CMD_WRITE, Idx ?n]\<rparr>) (files s)
              = (?w\<lparr>to_disk_pipe := [Tag CMD_WRITE, Idx ?n]\<rparr>, files s)"
    using assms(4) by (intro disk_loop_blocked) (simp_all add: disk_step_def)
  have w3: "disk_loop cfg k (file_env s) (?w\<lparr>to_disk_pipe := [Tag CMD_WRITE, Idx ?n, Payload ?d]\<rparr>) (files s)
              = (?w\<lparr>to_disk_pipe := [], disk_data := put_block cfg (disk_data ?w) ?n ?d\<rparr>, files s)"
    using assms(4,6,7) by (intro disk_loop_served) (simp_all add: disk_step_def)
  have e: "?w\<lparr>to_disk_pipe := [], disk_data := put_block cfg (disk_data ?w) ?n ?d\<rparr>
             = ?w\<lparr>disk_data := put_block cfg (disk_data ?w) ?n ?d\<rparr>"
    using assms(5) by simp
  show ?thesis
    using assms(1-5) w1 w2 w3 e
    by (simp add: write_block_to_disk_def pipe_write_def Let_def)
qed



lemma read_block_from_disk_dead:
  assumes "(if pf = 1 then num_disks cfg else bn smod num_disks cfg) = k"
    and "\<not> (0 \<le> k \<and> nat k < length (disks s) \<and> proc (disks s ! nat k) = Running)"
  shows "read_block_from_disk cfg bn (Some buf) pf s = (Returns (- 1), Some buf, s)"
  using assms by (auto simp: read_block_from_disk_def pipe_write_def Let_def)

lemma read_block_from_disk_alive:
  assumes "(if pf = 1 then num_disks cfg else bn smod num_disks cfg) = k"
    and "0 \<le> k" "nat k < length (disks s)" "proc (disks s ! nat k) = Running"
    and "quiet_worker cfg (disks s ! nat k)" "0 < block_size cfg"
    and "block_in_range cfg (bn sdiv num_disks cfg)"
    and "blocks_arrive_whole cfg"
  shows "read_block_from_disk cfg bn (Some buf) pf s =
     (Returns 0,
      Some (get_block cfg (disk_data (disks s ! nat k)) (bn sdiv num_disks cfg)
              @ drop (nat (block_size cfg)) buf),
      s\<lparr>log := log s @ [Sent k (Tag CMD_READ), Sent k (Idx (bn sdiv num_disks cfg)),
                       Received k (get_block cfg (disk_data (disks s ! nat k)) (bn sdiv num_disks cfg))]\<rparr>)"
proof -
  let ?w = "disks s ! nat k"
  let ?n = "bn sdiv num_disks cfg"
  let ?b = "get_block cfg (disk_data ?w) ?n"
  from assms(5) have q: "to_disk_pipe ?w = []" "from_disk_pipe ?w = []"
    and len: "int (length (disk_data ?w)) = disk_size cfg"
    by (simp_all add: quiet_worker_def)
  have r1: "disk_loop cfg k (file_env s) (?w\<lparr>to_disk_pipe := [Tag CMD_READ]\<rparr>) (files s)
              = (?w\<lparr>to_disk_pipe := [Tag CMD_READ]\<rparr>, files s)"
    using assms(4) by (intro disk_loop_blocked) (simp_all add: disk_step_def)
  have r2: "disk_loop cfg k (file_env s) (?w\<lparr>to_disk_pipe := [Tag CMD_READ, Idx ?n]\<rparr>) (files s)
              = (?w\<lparr>to_disk_pipe := [], from_disk_pipe := [?b]\<rparr>, files s)"
    using assms(4,7) q by (intro disk_loop_served) (simp_all add: disk_step_def)
  have bl: "int (length ?b) = block_size cfg"
    by (rule get_block_length [OF assms(7) len assms(6)])
  have e: "?w\<lparr>to_disk_pipe := [], from_disk_pipe := []\<rparr> = ?w"
    using q by simp
  have "read_block_from_disk cfg bn (Some buf) pf s =
     (Returns 0, Some (?b @ drop (nat (block_size cfg)) buf),
      s\<lparr>disks := (disks s)[nat k := ?w\<lparr>to_disk_pipe := [], from_disk_pipe := []\<rparr>],
        log := log s @ [Sent k (Tag CMD_READ), Sent k (Idx ?n), Received k ?b]\<rparr>)"
    using assms(1-4,8) q r1 r2 bl
    by (simp add: read_block_from_disk_def pipe_write_def pipe_read_def Let_def)
  then show ?thesis unfolding e by simp
qed


lemma small_block_num:
  assumes "0 \<le> i" "i < d"
  shows "i smod d = i" "i sdiv d = (0 :: int)"
  using assms by (simp_all add: signed_modulo_int_def signed_divide_int_def sgn_if)

lemma nonneg_block_num:
  assumes "0 \<le> i" "0 < d"
  shows "i smod d = i mod d" "i sdiv d = i div (d :: int)"
  using assms by (simp_all add: signed_modulo_int_def signed_divide_int_def sgn_if)

lemma array_ok_log [simp]: "array_ok cfg (s\<lparr>log := l\<rparr>) = array_ok cfg s"
  by (simp add: array_ok_def)

lemma array_ok_slot:
  assumes "array_ok cfg s" "0 \<le> k" "k \<le> num_disks cfg"
  shows "nat k < length (disks s)" "quiet_worker cfg (disks s ! nat k)"
proof -
  from assms show l: "nat k < length (disks s)" by (simp add: array_ok_def) linarith
  from assms(1) have "list_all (quiet_worker cfg) (disks s)" by (simp add: array_ok_def)
  with l show "quiet_worker cfg (disks s ! nat k)" by (simp add: list_all_length)
qed

lemma xor_block_length:
  "length p = nat (block_size cfg) \<Longrightarrow> nat (block_size cfg) \<le> length t
     \<Longrightarrow> length (xor_block cfg p t) = nat (block_size cfg)"
  by (simp add: xor_block_def)

lemma list_all_update: "list_all P xs \<Longrightarrow> P x \<Longrightarrow> list_all P (xs[i := x])"
  using set_update_subset_insert [of xs i x] by (auto simp: list_all_iff)

lemma array_ok_init: "0 \<le> num_disks cfg \<Longrightarrow> 0 \<le> disk_size cfg \<Longrightarrow> array_ok cfg (init_sys cfg)"
  by (simp add: array_ok_def init_sys_def quiet_worker_def fresh_disk_def list_all_length)




lemma parity_loop_effect:
  assumes "geometry_ok cfg" "block_in_range cfg 0" "blocks_arrive_whole cfg"
  shows "array_ok cfg s \<Longrightarrow> \<forall>i \<in> set js. 0 \<le> i \<and> i < num_disks cfg \<Longrightarrow>
     length p0 = nat (block_size cfg) \<Longrightarrow>
     \<exists>r p l. parity_loop cfg dn js p0 s = (Returns r, p, s\<lparr>log := log s @ l\<rparr>)
            \<and> foldl actual_step Idle l = Idle \<and> length p = nat (block_size cfg)"
proof (induction js arbitrary: p0 s)
  case Nil
  have "parity_loop cfg dn [] p0 s = (Returns 0, p0, s\<lparr>log := log s @ []\<rparr>)" by simp
  with Nil.prems(3) show ?case by (metis foldl_Nil)
next
  case (Cons i js)
  from Cons.prems have i: "0 \<le> i" "i < num_disks cfg"
    and js: "\<forall>i \<in> set js. 0 \<le> i \<and> i < num_disks cfg" by simp_all
  from assms(1) have B: "0 < block_size cfg" by (simp add: geometry_ok_def)
  show ?case
  proof (cases "i = dn")
    case True
    with Cons.IH [OF Cons.prems(1) js Cons.prems(3)] show ?thesis by simp
  next
    case False
    let ?buf = "replicate (nat (block_size cfg)) (0 :: byte)"
    have k: "(if (0 :: int) = 1 then num_disks cfg else i smod num_disks cfg) = i"
      using small_block_num [OF i] by simp
    have n: "i sdiv num_disks cfg = 0" using small_block_num [OF i] by simp
    from array_ok_slot [OF Cons.prems(1) i(1)] i(2)
    have sl: "nat i < length (disks s)" "quiet_worker cfg (disks s ! nat i)" by simp_all
    show ?thesis
    proof (cases "proc (disks s ! nat i) = Running")
      case True
      let ?b = "get_block cfg (disk_data (disks s ! nat i)) 0"
      let ?l = "[Sent i (Tag CMD_READ), Sent i (Idx 0), Received i ?b]"
      have rd: "read_block_from_disk cfg i (Some ?buf) 0 s
                  = (Returns 0, Some (?b @ drop (nat (block_size cfg)) ?buf), s\<lparr>log := log s @ ?l\<rparr>)"
        using read_block_from_disk_alive [OF k i(1) sl(1) True sl(2) B _ assms(3), of ?buf] assms(2) n
        by simp
      have ok: "array_ok cfg (s\<lparr>log := log s @ ?l\<rparr>)" using Cons.prems(1) by simp
      have "int (length ?b) = block_size cfg"
        using sl(2) by (intro get_block_length [OF assms(2) _ B]) (simp add: quiet_worker_def)
      then have "nat (block_size cfg) \<le> length (?b @ drop (nat (block_size cfg)) ?buf)" by simp
      from xor_block_length [OF Cons.prems(3) this]
      have xl: "length (xor_block cfg p0 (?b @ drop (nat (block_size cfg)) ?buf)) = nat (block_size cfg)" .
      from Cons.IH [OF ok js xl]
      obtain r p l where
        "parity_loop cfg dn js (xor_block cfg p0 (?b @ drop (nat (block_size cfg)) ?buf))
            (s\<lparr>log := log s @ ?l\<rparr>) = (Returns r, p, s\<lparr>log := log s @ ?l @ l\<rparr>)"
        and l: "foldl actual_step Idle l = Idle" and pl: "length p = nat (block_size cfg)" by auto
      with rd False have "parity_loop cfg dn (i # js) p0 s = (Returns r, p, s\<lparr>log := log s @ (?l @ l)\<rparr>)"
        by simp
      moreover have "foldl actual_step Idle (?l @ l) = Idle"
        using l by (simp add: actual_step_def)
      ultimately show ?thesis using pl by blast
    next
      case dead: False
      have "read_block_from_disk cfg i (Some ?buf) 0 s = (Returns (- 1), Some ?buf, s)"
        using read_block_from_disk_dead [OF k, of s ?buf] dead by simp
      with False have "parity_loop cfg dn (i # js) p0 s = (Returns (- 1), p0, s\<lparr>log := log s @ []\<rparr>)"
        by simp
      with Cons.prems(3) show ?thesis by (metis foldl_Nil)
    qed
  qed
qed



lemma slot_block_log [simp]: "slot_block cfg (s\<lparr>log := l\<rparr>) d n = slot_block cfg s d n"
  by (simp add: slot_block_def)

lemma reads_log_log [simp]: "reads_log cfg (s\<lparr>log := l\<rparr>) js = reads_log cfg s js"
  by (simp add: reads_log_def)

lemma reads_xor_log [simp]: "reads_xor cfg (s\<lparr>log := l\<rparr>) p js = reads_xor cfg s p js"
  by (simp add: reads_xor_def)

lemma all_running_log [simp]: "all_running (s\<lparr>log := l\<rparr>) = all_running s"
  by (simp add: all_running_def)



text \<open>Valid block numbers, and what one \<open>write_block\<close> does.\<close>

lemma block_below_capacity:
  assumes "0 \<le> n" "n < disk_size cfg div block_size cfg" "0 < block_size cfg"
  shows "block_in_range cfg n"
proof -
  from assms(2) have "n + 1 \<le> disk_size cfg div block_size cfg" by simp
  then have "(n + 1) * block_size cfg \<le> (disk_size cfg div block_size cfg) * block_size cfg"
    using assms(3) by (simp add: mult_right_mono)
  also have "\<dots> = disk_size cfg - disk_size cfg mod block_size cfg"
    by (simp add: minus_mod_eq_div_mult)
  also have "\<dots> \<le> disk_size cfg"
    using assms(3) by simp
  finally show ?thesis using assms(1) by (simp add: block_in_range_def algebra_simps)
qed

lemma valid_blocks:
  assumes "geometry_ok cfg" "0 \<le> i" "i < disk_size cfg sdiv block_size cfg"
  shows "block_in_range cfg (i sdiv num_disks cfg)"
    and "block_in_range cfg ((i sdiv num_disks cfg) sdiv num_disks cfg)"
    and "block_in_range cfg 0"
proof -
  from assms(1) have g: "0 < num_disks cfg" "0 < block_size cfg" "0 \<le> disk_size cfg"
    by (simp_all add: geometry_ok_def)
  have cap: "disk_size cfg sdiv block_size cfg = disk_size cfg div block_size cfg"
    using g by (simp add: nonneg_block_num)
  have a: "i sdiv num_disks cfg = i div num_disks cfg"
    using assms(2) g by (simp add: nonneg_block_num)
  have a0: "0 \<le> i div num_disks cfg" using assms(2) g by (simp add: pos_imp_zdiv_nonneg_iff)
  have a1: "i div num_disks cfg \<le> i" using assms(2) g zdiv_mono2 [of i 1 "num_disks cfg"] by simp
  have b: "(i div num_disks cfg) sdiv num_disks cfg = (i div num_disks cfg) div num_disks cfg"
    using a0 g by (simp add: nonneg_block_num)
  have b0: "0 \<le> (i div num_disks cfg) div num_disks cfg" using a0 g by (simp add: pos_imp_zdiv_nonneg_iff)
  have b1: "(i div num_disks cfg) div num_disks cfg \<le> i div num_disks cfg"
    using a0 g zdiv_mono2 [of "i div num_disks cfg" 1 "num_disks cfg"] by simp
  show "block_in_range cfg (i sdiv num_disks cfg)"
    unfolding a using a0 a1 assms(3) cap g by (intro block_below_capacity) simp_all
  show "block_in_range cfg ((i sdiv num_disks cfg) sdiv num_disks cfg)"
    unfolding a b using b0 b1 a1 assms(3) cap g by (intro block_below_capacity) simp_all
  show "block_in_range cfg 0"
    using assms(2,3) cap g by (intro block_below_capacity) simp_all
qed

lemma write_block_valid:
  assumes "geometry_ok cfg" "0 \<le> block_num" "block_num < disk_size cfg sdiv block_size cfg"
  shows "0 \<le> block_num smod num_disks cfg" "block_num smod num_disks cfg < num_disks cfg"
    and "write_block_parity_flag cfg block_num = 0"
    and "write_block cfg block_num (Some buf) s =
           (case write_block_to_disk cfg block_num (Some buf) 0 s of
              (r, s1) \<Rightarrow>
                if r \<noteq> 0 then (Returns (- 1), s1)
                else update_parity cfg (block_num smod num_disks cfg) (block_num sdiv num_disks cfg) buf s1)"
proof -
  from assms have d: "0 < num_disks cfg" by (simp add: geometry_ok_def)
  with assms(2) have m: "block_num smod num_disks cfg = block_num mod num_disks cfg"
    by (simp add: nonneg_block_num)
  with d show r: "0 \<le> block_num smod num_disks cfg" "block_num smod num_disks cfg < num_disks cfg"
    by simp_all
  then show f: "write_block_parity_flag cfg block_num = 0"
    by (simp add: write_block_parity_flag_def)
  show "write_block cfg block_num (Some buf) s =
           (case write_block_to_disk cfg block_num (Some buf) 0 s of
              (r, s1) \<Rightarrow>
                if r \<noteq> 0 then (Returns (- 1), s1)
                else update_parity cfg (block_num smod num_disks cfg) (block_num sdiv num_disks cfg) buf s1)"
    using r f assms(2,3)
    by (simp add: write_block_def Let_def split: prod.splits)
qed

lemma write_block_success:
  assumes g: "geometry_ok cfg" and wh: "blocks_arrive_whole cfg" and ok: "array_ok cfg s"
    and i: "0 \<le> i" "i < disk_size cfg sdiv block_size cfg"
    and X: "block_size cfg \<le> int (length X)"
    and w: "write_block cfg i (Some X) s = (Returns 0, s')"
  shows "\<exists>pb l. s' = s\<lparr>disks := (disks s)
               [nat (i smod num_disks cfg) := (disks s ! nat (i smod num_disks cfg))
                  \<lparr>disk_data := put_block cfg (disk_data (disks s ! nat (i smod num_disks cfg)))
                                  (i sdiv num_disks cfg) (take (nat (block_size cfg)) X)\<rparr>,
                nat (num_disks cfg) := (disks s ! nat (num_disks cfg))
                  \<lparr>disk_data := put_block cfg (disk_data (disks s ! nat (num_disks cfg)))
                                  ((i sdiv num_disks cfg) sdiv num_disks cfg) pb\<rparr>],
             log := log s @ l\<rparr>
          \<and> int (length pb) = block_size cfg \<and> foldl actual_step Idle l = Idle
          \<and> proc (disks s ! nat (i smod num_disks cfg)) = Running
          \<and> proc (disks s ! nat (num_disks cfg)) = Running"
proof -
  let ?D = "num_disks cfg"
  let ?k = "i smod ?D"
  let ?n = "i sdiv ?D"
  let ?B = "nat (block_size cfg)"
  from g have gg: "0 < ?D" "0 < block_size cfg" by (simp_all add: geometry_ok_def)
  note v = write_block_valid [OF g i]
  note rng = valid_blocks [OF g i]
  have kD: "?k \<le> ?D" "nat ?k \<noteq> nat ?D" using v(1,2) by simp_all
  note slk = array_ok_slot [OF ok v(1) kD(1)]
  have kk: "(if (0 :: int) = 1 then ?D else i smod ?D) = ?k" by simp
  have alive_k: "proc (disks s ! nat ?k) = Running"
  proof (rule ccontr)
    assume "proc (disks s ! nat ?k) \<noteq> Running"
    then have "write_block_to_disk cfg i (Some X) 0 s = (- 1, s)"
      by (intro write_block_to_disk_dead [OF kk]) simp
    with w v(4) [of X s] show False by simp
  qed
  let ?wk = "(disks s ! nat ?k)\<lparr>disk_data := put_block cfg (disk_data (disks s ! nat ?k)) ?n (take ?B X)\<rparr>"
  let ?l1 = "[Sent ?k (Tag CMD_WRITE), Sent ?k (Idx ?n), Sent ?k (Payload (take ?B X))]"
  let ?s1 = "s\<lparr>disks := (disks s)[nat ?k := ?wk], log := log s @ ?l1\<rparr>"
  have w1: "write_block_to_disk cfg i (Some X) 0 s = (0, ?s1)"
    using slk(2) by (intro write_block_to_disk_alive [OF kk v(1) slk(1) alive_k _ rng(1) wh])
                    (simp add: quiet_worker_def)
  have takeX: "block_size cfg \<le> int (length (take ?B X))" using X by simp
  have qk: "quiet_worker cfg ?wk"
    using slk(2) put_block_length [OF rng(1) _ gg(2) takeX, of "disk_data (disks s ! nat ?k)"]
    by (simp add: quiet_worker_def)
  have ok1: "array_ok cfg ?s1"
    using ok qk slk(1) by (auto simp: array_ok_def list_all_length nth_list_update)
  from w v(4) [of X s] w1 have up: "update_parity cfg ?k ?n X ?s1 = (Returns 0, s')" by simp
  have "\<forall>j \<in> set [0 .. ?D - 1]. 0 \<le> j \<and> j < ?D" by auto
  from parity_loop_effect [OF g rng(3) wh ok1 this, of "replicate ?B 0" ?k]
  obtain r p l where pl: "parity_loop cfg ?k [0 .. ?D - 1] (replicate ?B 0) ?s1
       = (Returns r, p, ?s1\<lparr>log := log ?s1 @ l\<rparr>)" and l: "foldl actual_step Idle l = Idle"
    and plen: "length p = ?B"
    by auto
  let ?s2 = "?s1\<lparr>log := log ?s1 @ l\<rparr>"
  let ?pb = "take ?B (xor_block cfg p X)"
  from up pl have r0: "r = 0"
    by (auto simp: update_parity_def split: if_splits prod.splits)
  with up pl have pw: "write_block_to_disk cfg ?n (Some (xor_block cfg p X)) 1 ?s2 = (0, s')"
    by (auto simp: update_parity_def split: if_splits prod.splits)
  have kp: "(if (1 :: int) = 1 then ?D else ?n smod ?D) = ?D" by simp
  have ok2: "array_ok cfg ?s2" using ok1 by simp
  have D0: "0 \<le> ?D" using gg by simp
  note slD = array_ok_slot [OF ok2 D0 order_refl]
  have alive_D: "proc (disks ?s2 ! nat ?D) = Running"
  proof (rule ccontr)
    assume "proc (disks ?s2 ! nat ?D) \<noteq> Running"
    then have "write_block_to_disk cfg ?n (Some (xor_block cfg p X)) 1 ?s2 = (- 1, ?s2)"
      by (intro write_block_to_disk_dead [OF kp]) simp
    with pw show False by simp
  qed
  have qD: "to_disk_pipe (disks ?s2 ! nat ?D) = []" using slD(2) by (simp add: quiet_worker_def)
  note pw' = write_block_to_disk_alive [OF kp D0 slD(1) alive_D qD rng(2) wh, of "xor_block cfg p X"]
  have Dk: "disks ?s2 ! nat ?D = disks s ! nat ?D" using kD(2) by simp
  have "length (xor_block cfg p X) = ?B" using X by (intro xor_block_length [OF plen]) simp
  then have len_pb: "int (length ?pb) = block_size cfg" using gg by simp
  let ?l3 = "[Sent ?D (Tag CMD_WRITE), Sent ?D (Idx (?n sdiv ?D)), Sent ?D (Payload ?pb)]"
  from pw pw' have s': "s' = ?s2\<lparr>disks := (disks ?s2)[nat ?D := (disks ?s2 ! nat ?D)
         \<lparr>disk_data := put_block cfg (disk_data (disks ?s2 ! nat ?D)) (?n sdiv ?D) ?pb\<rparr>],
       log := log ?s2 @ ?l3\<rparr>" by simp
  have fl: "foldl actual_step Idle (?l1 @ l @ ?l3) = Idle"
    using l by (simp add: actual_step_def)
  have "s' = s\<lparr>disks := (disks s)
               [nat ?k := ?wk,
                nat ?D := (disks s ! nat ?D)
                  \<lparr>disk_data := put_block cfg (disk_data (disks s ! nat ?D)) (?n sdiv ?D) ?pb\<rparr>],
             log := log s @ (?l1 @ l @ ?l3)\<rparr>"
    unfolding s' using kD(2) by simp
  with len_pb fl alive_k alive_D Dk show ?thesis by metis
qed

lemma array_ok_write_block:
  assumes g: "geometry_ok cfg" and wh: "blocks_arrive_whole cfg" and ok: "array_ok cfg s"
    and i: "0 \<le> i" "i < disk_size cfg sdiv block_size cfg"
    and X: "block_size cfg \<le> int (length X)"
    and w: "write_block cfg i (Some X) s = (Returns 0, s')"
  shows "array_ok cfg s'"
proof -
  let ?D = "num_disks cfg"
  let ?k = "i smod ?D"
  from g have gg: "0 < ?D" "0 < block_size cfg" by (simp_all add: geometry_ok_def)
  note v = write_block_valid [OF g i]
  note rng = valid_blocks [OF g i]
  have kD: "?k \<le> ?D" using v(1,2) by simp
  note slk = array_ok_slot [OF ok v(1) kD]
  have D0: "0 \<le> ?D" using gg by simp
  note slD = array_ok_slot [OF ok D0 order_refl]
  from write_block_success [OF g wh ok i X w] obtain pb l where
    s': "s' = s\<lparr>disks := (disks s)
               [nat ?k := (disks s ! nat ?k)
                  \<lparr>disk_data := put_block cfg (disk_data (disks s ! nat ?k))
                                  (i sdiv ?D) (take (nat (block_size cfg)) X)\<rparr>,
                nat ?D := (disks s ! nat ?D)
                  \<lparr>disk_data := put_block cfg (disk_data (disks s ! nat ?D))
                                  ((i sdiv ?D) sdiv ?D) pb\<rparr>],
             log := log s @ l\<rparr>"
    and pb: "int (length pb) = block_size cfg" by blast
  have takeX: "block_size cfg \<le> int (length (take (nat (block_size cfg)) X))" using X by simp
  have qk: "quiet_worker cfg ((disks s ! nat ?k)
                  \<lparr>disk_data := put_block cfg (disk_data (disks s ! nat ?k))
                                  (i sdiv ?D) (take (nat (block_size cfg)) X)\<rparr>)"
    using slk(2) put_block_length [OF rng(1) _ gg(2) takeX, of "disk_data (disks s ! nat ?k)"]
    by (simp add: quiet_worker_def)
  have qD: "quiet_worker cfg ((disks s ! nat ?D)
                  \<lparr>disk_data := put_block cfg (disk_data (disks s ! nat ?D))
                                  ((i sdiv ?D) sdiv ?D) pb\<rparr>)"
    using slD(2) pb put_block_length [OF rng(2) _ gg(2), of "disk_data (disks s ! nat ?D)" pb]
    by (simp add: quiet_worker_def)
  show ?thesis
    unfolding s' using ok qk qD
    by (simp add: array_ok_def list_all_update)
qed







subsection \<open>The parity of a stripe\<close>

text \<open>
  C1. After successful \<open>write_block\<close> calls the parity block of every stripe should be
  the XOR of the data blocks of that stripe, each call reading the other data disks at
  the stripe of the written block and writing the parity at that stripe. The code
  passes \<open>i\<close> to \<open>read_block_from_disk\<close> and \<open>stripe\<close> to \<open>write_block_to_disk\<close>, and
  both divide their argument by \<open>num_disks\<close> again: the other disks are read at local
  index 0 and the parity is written at local index \<open>stripe / num_disks\<close>. On the fresh
  array of the scenario, one successful write of DDDD to global block 3 puts DDDD at
  stripe 1 of disk 0, leaves the parity of stripe 1 zero and overwrites the parity of
  stripe 0 with DDDD, so neither stripe has its parity.
\<close>

theorem parity_broken_beyond_stripe_0:
  "write_block scenario_cfg 3 (Some (block_of 68)) (init_sys scenario_cfg) = (Returns 0, after_D)
   \<and> slot_block scenario_cfg after_D 0 1 = block_of 68
   \<and> stripe_xor scenario_cfg after_D 1 = block_of 68
   \<and> slot_block scenario_cfg after_D 3 1 = block_of 0
   \<and> stripe_xor scenario_cfg after_D 0 = block_of 0
   \<and> slot_block scenario_cfg after_D 3 0 = block_of 68
   \<and> \<not> parity_ok scenario_cfg after_D 1 \<and> \<not> parity_ok scenario_cfg after_D 0"
  unfolding after_D_def
  by (simp add: scenario_cfg_def block_of_def data_path_defs slot_block_def parity_ok_def
        stripe_xor_def upt_3)

text \<open>
  C2. With three data disks, blocks of 4 bytes and disks of 16 bytes, on the fresh
  array: the writes of AAAA, BBBB and CCCC to global blocks 0, 1 and 2 all return 0;
  block 0 of the three data disks then holds AAAA, BBBB and CCCC, and block 0 of the
  parity disk holds four bytes 0x41 XOR 0x42 XOR 0x43, which is 0x40; \<open>read_block(1)\<close>
  returns BBBB.
\<close>

theorem scenario_parity_and_read:
  "write_block scenario_cfg 0 (Some (block_of 65)) (init_sys scenario_cfg) = (Returns 0, after_A)
   \<and> write_block scenario_cfg 1 (Some (block_of 66)) after_A = (Returns 0, after_B)
   \<and> write_block scenario_cfg 2 (Some (block_of 67)) after_B = (Returns 0, after_C)
   \<and> slot_block scenario_cfg after_C 0 0 = block_of 65
   \<and> slot_block scenario_cfg after_C 1 0 = block_of 66
   \<and> slot_block scenario_cfg after_C 2 0 = block_of 67
   \<and> slot_block scenario_cfg after_C 3 0 = block_of (65 XOR 66 XOR 67)
   \<and> slot_block scenario_cfg after_C 3 0 = block_of 64
   \<and> fst (read_block scenario_cfg 1 (Some (block_of 0)) after_C) = Returns (Some (block_of 66))"
  apply (intro conjI)
  apply (rule after_A_eq)
  apply (rule after_B_eq)
  apply (rule after_C_eq)
  unfolding after_C_def after_B_def after_A_def
  apply (simp_all add: scenario_cfg_def block_of_def data_path_defs slot_block_def)
  done

subsection \<open>Writing and reading back\<close>

text \<open>
  C3. A successful \<open>write_block(i, X)\<close> followed by \<open>read_block(i)\<close> should return
  \<open>X\<close> for every valid \<open>i\<close> and every payload of \<open>block_size\<close> bytes. Worker and
  controller each move a block with a single \<open>read\<close>, which returns at most what the
  pipe holds. With one data disk and blocks of 131072 bytes, more than a pipe holds,
  on the fresh array: \<open>write_block(0, X)\<close> returns 0, but the worker's \<open>read\<close> of the
  payload came short, so it has set \<open>status\<close> and not copied: block 0 of disk 0 is
  still zero, and the following \<open>read_block(0)\<close> does not return \<open>X\<close>.
\<close>

theorem large_block_acknowledged_but_not_stored:
  "geometry_ok big_cfg \<and> array_ok big_cfg (init_sys big_cfg) \<and> all_running (init_sys big_cfg)
   \<and> (0 :: int) \<le> 0 \<and> 0 < disk_size big_cfg sdiv block_size big_cfg
   \<and> int (length big_block) = block_size big_cfg
   \<and> pipe_capacity big_cfg < block_size big_cfg
   \<and> write_block big_cfg 0 (Some big_block) (init_sys big_cfg) = (Returns 0, after_big_write)
   \<and> disks after_big_write ! 0 = (fresh_disk big_cfg)\<lparr>status := 1, proc := Misframed\<rparr>
   \<and> disk_data (disks after_big_write ! 0) = replicate 262144 0
   \<and> slot_block big_cfg after_big_write 0 0 = replicate 131072 0
   \<and> slot_block big_cfg after_big_write 0 0 \<noteq> big_block
   \<and> fst (read_block big_cfg 0 (Some (replicate 131072 0)) after_big_write) \<noteq> Returns (Some big_block)"
proof -
  have g: "geometry_ok big_cfg" by (simp add: geometry_ok_def big_cfg_def)
  have ok: "array_ok big_cfg (init_sys big_cfg)"
    by (rule array_ok_init) (simp_all add: big_cfg_def)
  have run: "all_running (init_sys big_cfg)"
    by (simp add: all_running_def init_sys_def fresh_disk_def list_all_iff)
  have i: "(0 :: int) \<le> 0" "0 < disk_size big_cfg sdiv block_size big_cfg"
    by (simp_all add: big_cfg_def signed_divide_int_def)
  have X: "int (length big_block) = block_size big_cfg" by (simp add: big_block_def big_cfg_def)
  have c: "pipe_capacity big_cfg < block_size big_cfg" by (simp add: big_cfg_def)
  have w: "write_block big_cfg 0 (Some big_block) (init_sys big_cfg) = (Returns 0, after_big_write)"
    unfolding after_big_write_def by (simp add: big_cfg_def big_block_def data_path_defs)
  have d: "disks after_big_write ! 0 = (fresh_disk big_cfg)\<lparr>status := 1, proc := Misframed\<rparr>"
    unfolding after_big_write_def by (simp add: big_cfg_def big_block_def data_path_defs)
  then have d2: "disk_data (disks after_big_write ! 0) = replicate 262144 0"
    by (simp add: fresh_disk_def big_cfg_def)
  then have s0: "slot_block big_cfg after_big_write 0 0 = replicate 131072 0"
    by (simp add: slot_block_def get_block_def big_cfg_def)
  have ne: "replicate 131072 (0 :: byte) \<noteq> big_block"
  proof
    assume "replicate 131072 (0 :: byte) = big_block"
    then have "hd (replicate 131072 (0 :: byte)) = hd (replicate 131072 65)"
      by (simp add: big_block_def)
    then show False by (simp add: hd_replicate)
  qed
  have r: "fst (read_block big_cfg 0 (Some (replicate 131072 0)) after_big_write) = Returns None"
    using d by (simp add: read_block_def read_block_from_disk_def pipe_write_def big_cfg_def
                  signed_divide_int_def signed_modulo_int_def)
  from g ok run i X c w d d2 s0 ne r show ?thesis by simp
qed

text \<open>
  For blocks that arrive whole (at most \<open>PIPE_BUF\<close> bytes, or below the capacity with
  the writer ahead of the reader) the round trip holds: on an array between two calls,
  for a valid global block number and a payload of \<open>block_size\<close> bytes, when
  \<open>write_block\<close> returns 0 the following \<open>read_block\<close> returns the payload.
\<close>

lemma round_trip_when_blocks_arrive_whole:
  assumes "geometry_ok cfg" and "blocks_arrive_whole cfg" and "array_ok cfg s"
    and "0 \<le> i" and "i < disk_size cfg sdiv block_size cfg"
    and "int (length X) = block_size cfg"
    and "write_block cfg i (Some X) s = (Returns 0, s')"
  shows "fst (read_block cfg i (Some buf) s') = Returns (Some (X @ drop (nat (block_size cfg)) buf))
       \<and> take (nat (block_size cfg)) (X @ drop (nat (block_size cfg)) buf) = X"
proof -
  let ?D = "num_disks cfg"
  let ?k = "i smod ?D"
  let ?n = "i sdiv ?D"
  let ?B = "nat (block_size cfg)"
  note g = assms(1) and wh = assms(2) and ok = assms(3) and i = assms(4,5) and w = assms(7)
  from g have gg: "0 < ?D" "0 < block_size cfg" by (simp_all add: geometry_ok_def)
  have X: "block_size cfg \<le> int (length X)" and tX: "take ?B X = X" using assms(6) by simp_all
  note v = write_block_valid [OF g i]
  note rng = valid_blocks [OF g i]
  have kD: "?k \<le> ?D" "nat ?k \<noteq> nat ?D" using v(1,2) by simp_all
  note slk = array_ok_slot [OF ok v(1) kD(1)]
  have D0: "0 \<le> ?D" using gg by simp
  note slD = array_ok_slot [OF ok D0 order_refl]
  from write_block_success [OF g wh ok i X w] obtain pb l where
    s': "s' = s\<lparr>disks := (disks s)
               [nat ?k := (disks s ! nat ?k)
                  \<lparr>disk_data := put_block cfg (disk_data (disks s ! nat ?k)) ?n (take ?B X)\<rparr>,
                nat ?D := (disks s ! nat ?D)
                  \<lparr>disk_data := put_block cfg (disk_data (disks s ! nat ?D)) (?n sdiv ?D) pb\<rparr>],
             log := log s @ l\<rparr>"
    and run: "proc (disks s ! nat ?k) = Running" by blast
  let ?wk = "(disks s ! nat ?k)\<lparr>disk_data := put_block cfg (disk_data (disks s ! nat ?k)) ?n X\<rparr>"
  have at_k: "disks s' ! nat ?k = ?wk"
    unfolding s' using kD(2) slk(1) tX by simp
  have len': "nat ?k < length (disks s')" unfolding s' using slk(1) by simp
  have ok': "array_ok cfg s'" by (rule array_ok_write_block [OF g wh ok i X w])
  note slk' = array_ok_slot [OF ok' v(1) kD(1)]
  have run': "proc (disks s' ! nat ?k) = Running" using at_k run by simp
  have kk: "(if (0 :: int) = 1 then ?D else i smod ?D) = ?k" by simp
  have mem: "int (length (disk_data (disks s ! nat ?k))) = disk_size cfg"
    using slk(2) by (simp add: quiet_worker_def)
  have "get_block cfg (disk_data (disks s' ! nat ?k)) ?n = X"
    using get_put_block [OF rng(1) mem gg(2) X] at_k tX by simp
  with read_block_from_disk_alive [OF kk v(1) len' run' slk'(2) gg(2) rng(1) wh, of buf]
  have "read_block_from_disk cfg i (Some buf) 0 s'
          = (Returns 0, Some (X @ drop ?B buf),
             s'\<lparr>log := log s' @ [Sent ?k (Tag CMD_READ), Sent ?k (Idx ?n), Received ?k X]\<rparr>)"
    by simp
  then have "fst (read_block cfg i (Some buf) s') = Returns (Some (X @ drop ?B buf))"
    using i by (simp add: read_block_def)
  then show ?thesis using assms(6) by simp
qed

subsection \<open>Address validation\<close>

text \<open>
  C4. For a global block number below 0 or at least \<open>disk_size / block_size\<close>
  (\<open>block_size\<close> not zero, so that the division is defined; the test for a negative
  number comes first and needs no division), \<open>write_block\<close> returns -1 and
  \<open>read_block\<close> returns NULL, and the system is as it was: no worker's disk, no pipe,
  no file and no entry of the log has changed.
\<close>

theorem invalid_address_rejected:
  assumes "block_num < 0 \<or> (block_size cfg \<noteq> 0 \<and> block_num \<ge> disk_size cfg sdiv block_size cfg)"
  shows "write_block cfg block_num data s = (Returns (- 1), s)
       \<and> read_block cfg block_num buffer s = (Returns None, s)"
  using assms by (auto simp: write_block_def read_block_def split: option.splits)

theorem invalid_address_rejected_witness:
  "((- 1 :: int) < 0 \<or> (block_size scenario_cfg \<noteq> 0
        \<and> - 1 \<ge> disk_size scenario_cfg sdiv block_size scenario_cfg))
   \<and> write_block scenario_cfg (- 1) (Some (block_of 65)) after_A = (Returns (- 1), after_A)
   \<and> read_block scenario_cfg (- 1) (Some (block_of 0)) after_A = (Returns None, after_A)
   \<and> ((4 :: int) < 0 \<or> (block_size scenario_cfg \<noteq> 0
        \<and> 4 \<ge> disk_size scenario_cfg sdiv block_size scenario_cfg))
   \<and> write_block scenario_cfg 4 (Some (block_of 65)) after_A = (Returns (- 1), after_A)
   \<and> read_block scenario_cfg 4 (Some (block_of 0)) after_A = (Returns None, after_A)"
proof -
  have a: "(- 1 :: int) < 0 \<or> (block_size scenario_cfg \<noteq> 0
        \<and> - 1 \<ge> disk_size scenario_cfg sdiv block_size scenario_cfg)" by simp
  have b: "(4 :: int) < 0 \<or> (block_size scenario_cfg \<noteq> 0
        \<and> 4 \<ge> disk_size scenario_cfg sdiv block_size scenario_cfg)"
    by (simp add: scenario_cfg_def signed_divide_int_def)
  show ?thesis
    using a b
      invalid_address_rejected [OF a, of "Some (block_of 65)" after_A "Some (block_of 0)"]
      invalid_address_rejected [OF b, of "Some (block_of 65)" after_A "Some (block_of 0)"]
    by simp
qed

subsection \<open>The parity phase of \<open>write_block\<close>\<close>




subsection \<open>Requests and replies\<close>




subsection \<open>The worker's command loop\<close>





text \<open>
  C5. A worker that receives a command tag outside READ, WRITE and EXIT should leave
  its loop and exit with a failure status. In the code the \<open>break\<close> of the \<open>default\<close>
  case leaves the \<open>switch\<close> only: \<open>status\<close> becomes 1 and the loop goes on. A fresh
  worker that is sent tag 7, then a WRITE of XXXX to block 0, then a READ of block 0
  is still running afterwards, has stored XXXX and has sent it back.
\<close>

theorem unknown_command_keeps_serving:
  "disk_step cfg i io (w\<lparr>to_disk_pipe := Tag (CMD_OTHER t) # q\<rparr>) fs
     = Some (w\<lparr>to_disk_pipe := q, status := 1\<rparr>, fs)
   \<and> fst (start_disk scenario_cfg 0 Io_ok
        [Tag (CMD_OTHER 7), Tag CMD_WRITE, Idx 0, Payload (block_of 88), Tag CMD_READ, Idx 0] Map.empty)
     = \<lparr>disk_data = block_of 88 @ replicate 12 0, status = 1, proc = Running,
        to_disk_pipe = [], from_disk_pipe = [block_of 88], called_checkpoint_and_wait = False\<rparr>"
  by (simp add: start_disk_def scenario_cfg_def block_of_def data_path_defs)



text \<open>
  The failure exit goes through \<open>checkpoint_and_wait\<close>, which sends EXIT to the workers
  forked earlier: in the scenario, when the \<open>read\<close> of worker 2 fails, workers 0 and 1
  take an EXIT and write their files, worker 2 exits with status 1 and writes none,
  and worker 3 runs on. The files are written by workers that took an EXIT.
\<close>

lemma failed_read_reaches_earlier_workers:
  "map proc (disks (worker_read_fails scenario_cfg 2 (init_sys scenario_cfg)))
     = [Exited 0, Exited 0, Exited 1, Running]
   \<and> files (worker_read_fails scenario_cfg 2 (init_sys scenario_cfg))
     = [''disk_0.dat'' \<mapsto> replicate 16 0, ''disk_1.dat'' \<mapsto> replicate 16 0]
   \<and> log (worker_read_fails scenario_cfg 2 (init_sys scenario_cfg)) = []"
  by (simp add: worker_read_fails_def worker_pipe_write_def scenario_cfg_def data_path_defs
        checkpoint_disk_def disk_name_0 disk_name_1 numeral_eq_Suc)

subsection \<open>Descriptors after a restart\<close>

text \<open>
  C6. The worker spawned by \<open>restart_disk\<close> should enter \<open>start_disk\<close> holding the read
  end of its controller-to-worker pipe and the write end of its worker-to-controller
  pipe, with every other pipe end closed. For its own slot the loop of the child
  closes all four descriptors of the new pair, the two it needs included. With four
  slots initialised, worker 1 killed and slot 1 restarted, the new worker is alive and
  the descriptors passed to \<open>start_disk\<close> as \<open>from_parent\<close> and \<open>to_parent\<close> are
  closed in its table; a worker spawned by \<open>init_disk\<close> holds both.
\<close>

theorem restored_worker_closes_its_own_ends:
  "fst restore_scenario = 0
   \<and> length (children (snd restore_scenario)) = 5
   \<and> child_id (children (snd restore_scenario) ! 4) = 1
   \<and> alive (children (snd restore_scenario) ! 4)
   \<and> from_parent (children (snd restore_scenario) ! 4) = fst (to_disk (controllers (snd restore_scenario) ! 1))
   \<and> to_parent (children (snd restore_scenario) ! 4) = snd (from_disk (controllers (snd restore_scenario) ! 1))
   \<and> fd_at (child_fds (children (snd restore_scenario) ! 4)) (from_parent (children (snd restore_scenario) ! 4)) = None
   \<and> fd_at (child_fds (children (snd restore_scenario) ! 4)) (to_parent (children (snd restore_scenario) ! 4)) = None
   \<and> \<not> holds_needed_ends (children (snd restore_scenario) ! 4)
   \<and> holds_needed_ends (children (snd restore_scenario) ! 0)"
  unfolding restore_scenario_def
  by code_simp

subsection \<open>An initialisation that fails\<close>

text \<open>Descriptors that stay open, and what \<open>pipe\<close> and \<open>init_disk\<close> do to the table.\<close>

lemma keeps_open_nth:
  "keeps_open t t' \<longleftrightarrow> length t' = length t \<and> (\<forall>fd < length t. t ! fd \<noteq> None \<longrightarrow> t' ! fd = t ! fd)"
proof -
  have "list_all (\<lambda>fd. t ! fd = None \<or> t' ! fd = t ! fd) [0 ..< length t]
      \<longleftrightarrow> (\<forall>fd < length t. t ! fd \<noteq> None \<longrightarrow> t' ! fd = t ! fd)"
  proof
    assume a: "list_all (\<lambda>fd. t ! fd = None \<or> t' ! fd = t ! fd) [0 ..< length t]"
    show "\<forall>fd < length t. t ! fd \<noteq> None \<longrightarrow> t' ! fd = t ! fd"
    proof (intro allI impI)
      fix fd assume "fd < length t" and n: "t ! fd \<noteq> None"
      with a have "t ! fd = None \<or> t' ! fd = t ! fd"
        by (simp add: list_all_iff)
      with n show "t' ! fd = t ! fd" by metis
    qed
  next
    assume "\<forall>fd < length t. t ! fd \<noteq> None \<longrightarrow> t' ! fd = t ! fd"
    then show "list_all (\<lambda>fd. t ! fd = None \<or> t' ! fd = t ! fd) [0 ..< length t]"
      unfolding list_all_iff by (metis atLeastLessThan_iff set_upt)
  qed
  then show ?thesis by (simp only: keeps_open_def)
qed

lemma keeps_open_refl: "keeps_open t t"
  unfolding keeps_open_nth by simp

lemma keeps_open_trans:
  assumes "keeps_open t t'" "keeps_open t' t''"
  shows "keeps_open t t''"
  unfolding keeps_open_nth
proof (intro conjI allI impI)
  from assms show "length t'' = length t" by (simp add: keeps_open_nth)
  fix fd assume fd: "fd < length t" "t ! fd \<noteq> None"
  with assms(1) have 1: "t' ! fd = t ! fd" by (simp add: keeps_open_nth)
  from assms(1) fd have "fd < length t'" by (simp add: keeps_open_nth)
  with assms(2) fd(2) 1 have "t'' ! fd = t' ! fd" by (simp add: keeps_open_nth)
  with 1 show "t'' ! fd = t ! fd" by simp
qed

lemma keeps_open_mem:
  assumes "keeps_open t t'" "Some e \<in> set t"
  shows "Some e \<in> set t'"
proof -
  from assms(2) obtain fd where fd: "fd < length t" "t ! fd = Some e"
    by (auto simp: in_set_conv_nth)
  with assms(1) have "t' ! fd = Some e" "fd < length t'" by (simp_all add: keeps_open_nth)
  then show ?thesis by (metis nth_mem)
qed

lemma holds_peer_mono:
  assumes "keeps_open (fds st) (fds st')" "controller_holds_peer st c"
  shows "controller_holds_peer st' c"
  using assms(2) keeps_open_mem [OF assms(1)]
  unfolding controller_holds_peer_def
  by (simp split: option.splits endpoint.splits)

lemma sys_pipe_Some:
  assumes "sys_pipe st = Some ((r, w), st1)"
  shows "r < length (fds st)" "w < length (fds st)" "r \<noteq> w"
    "fds st ! r = None" "fds st ! w = None"
    "st1 = st\<lparr>fds := (fds st)[r := Some (Pipe_read (next_pipe st)),
                              w := Some (Pipe_write (next_pipe st))],
              next_pipe := Suc (next_pipe st)\<rparr>"
proof -
  from assms obtain rest where f: "free_fds (fds st) = r # w # rest"
    by (auto simp: sys_pipe_def split: list.splits)
  have d: "distinct (free_fds (fds st))" by (simp add: free_fds_def)
  have "r \<in> set (free_fds (fds st))" "w \<in> set (free_fds (fds st))" using f by simp_all
  then show "r < length (fds st)" "w < length (fds st)" "fds st ! r = None" "fds st ! w = None"
    by (simp_all add: free_fds_def)
  from d f show "r \<noteq> w" by simp
  from assms f show "st1 = st\<lparr>fds := (fds st)[r := Some (Pipe_read (next_pipe st)),
                              w := Some (Pipe_write (next_pipe st))],
              next_pipe := Suc (next_pipe st)\<rparr>"
    by (simp add: sys_pipe_def)
qed

lemma make_pipes_Inl:
  assumes "make_pipes num st = Inl st'"
  shows "keeps_open (fds st) (fds st')" "children st' = children st"
    "controllers_allocated st' = controllers_allocated st"
    "length (controllers st') = length (controllers st)"
    "max_children st' = max_children st"
proof -
  have "keeps_open (fds st) (fds st') \<and> children st' = children st
      \<and> controllers_allocated st' = controllers_allocated st
      \<and> length (controllers st') = length (controllers st)
      \<and> max_children st' = max_children st"
  proof (cases "sys_pipe st")
    case None
    with assms have "st' = st" by (simp add: make_pipes_def)
    then show ?thesis by (simp add: keeps_open_refl)
  next
    case (Some a)
    obtain r w st1 where a: "a = ((r, w), st1)" by (metis prod.collapse)
    note p = sys_pipe_Some [OF Some [unfolded a]]
    from assms Some a have st': "st' = set_to_disk num (r, w) st1"
      by (simp add: make_pipes_def split: option.splits prod.splits)
    have "fds st' = (fds st)[r := Some (Pipe_read (next_pipe st)), w := Some (Pipe_write (next_pipe st))]"
      unfolding st' using p(6) by (simp add: set_to_disk_def)
    then have "keeps_open (fds st) (fds st')"
      using p(1-5) unfolding keeps_open_nth by (auto simp: nth_list_update)
    moreover have "children st' = children st" "controllers_allocated st' = controllers_allocated st"
      "length (controllers st') = length (controllers st)" "max_children st' = max_children st"
      unfolding st' using p(6) by (simp_all add: set_to_disk_def)
    ultimately show ?thesis by simp
  qed
  then show "keeps_open (fds st) (fds st')" "children st' = children st"
    "controllers_allocated st' = controllers_allocated st"
    "length (controllers st') = length (controllers st)"
    "max_children st' = max_children st" by simp_all
qed

lemma make_pipes_Inr:
  assumes "make_pipes num st = Inr st2" "nat num < length (controllers st)"
  shows "\<exists>r w r2 w2.
     r < length (fds st) \<and> w < length (fds st) \<and> r2 < length (fds st) \<and> w2 < length (fds st)
     \<and> distinct [r, w, r2, w2]
     \<and> fds st ! r = None \<and> fds st ! w = None \<and> fds st ! r2 = None \<and> fds st ! w2 = None
     \<and> fds st2 = (fds st)[r := Some (Pipe_read (next_pipe st)), w := Some (Pipe_write (next_pipe st)),
                           r2 := Some (Pipe_read (Suc (next_pipe st))),
                           w2 := Some (Pipe_write (Suc (next_pipe st)))]
     \<and> to_disk (controllers st2 ! nat num) = (r, w)
     \<and> from_disk (controllers st2 ! nat num) = (r2, w2)
     \<and> children st2 = children st \<and> controllers_allocated st2 = controllers_allocated st
     \<and> length (controllers st2) = length (controllers st) \<and> max_children st2 = max_children st"
proof -
  from assms(1) obtain a where s1: "sys_pipe st = Some a"
    by (auto simp: make_pipes_def split: option.splits)
  obtain r w st1 where a: "a = ((r, w), st1)" by (metis prod.collapse)
  note p = sys_pipe_Some [OF s1 [unfolded a]]
  let ?st1 = "set_to_disk num (r, w) st1"
  from assms(1) s1 a obtain b where s2: "sys_pipe ?st1 = Some b"
    by (auto simp: make_pipes_def split: option.splits)
  obtain r2 w2 st2' where b: "b = ((r2, w2), st2')" by (metis prod.collapse)
  note q = sys_pipe_Some [OF s2 [unfolded b]]
  from assms(1) s1 a s2 b have st2: "st2 = set_from_disk num (r2, w2) st2'"
    by (simp add: make_pipes_def)
  have f1: "fds ?st1 = (fds st)[r := Some (Pipe_read (next_pipe st)), w := Some (Pipe_write (next_pipe st))]"
    and n1: "next_pipe ?st1 = Suc (next_pipe st)"
    and c1: "controllers ?st1 = (controllers st)[nat num := (controllers st ! nat num)\<lparr>to_disk := (r, w)\<rparr>]"
    and o1: "children ?st1 = children st" "controllers_allocated ?st1 = controllers_allocated st"
            "max_children ?st1 = max_children st"
    using p(6) by (simp_all add: set_to_disk_def)
  have len: "r2 < length (fds st)" "w2 < length (fds st)" using q(1,2) f1 by simp_all
  have ne: "r2 \<noteq> r" "r2 \<noteq> w" "w2 \<noteq> r" "w2 \<noteq> w"
    using q(4,5) f1 p(1-3) by (auto simp: nth_list_update split: if_splits)
  have free: "fds st ! r2 = None" "fds st ! w2 = None"
    using q(4,5) f1 ne by (simp_all add: nth_list_update)
  have f2: "fds st2 = (fds st)[r := Some (Pipe_read (next_pipe st)), w := Some (Pipe_write (next_pipe st)),
                           r2 := Some (Pipe_read (Suc (next_pipe st))),
                           w2 := Some (Pipe_write (Suc (next_pipe st)))]"
    unfolding st2 using q(6) f1 n1 by (simp add: set_from_disk_def)
  have c2: "controllers st2 ! nat num = (controllers st ! nat num)\<lparr>to_disk := (r, w), from_disk := (r2, w2)\<rparr>"
    unfolding st2 using q(6) c1 assms(2) by (simp add: set_from_disk_def)
  have o2: "children st2 = children st" "controllers_allocated st2 = controllers_allocated st"
    "length (controllers st2) = length (controllers st)" "max_children st2 = max_children st"
    unfolding st2 using q(6) o1 c1 by (simp_all add: set_from_disk_def)
  have d: "distinct [r, w, r2, w2]" using p(3) q(3) ne by auto
  show ?thesis
    using p(1,2,4,5) len d free f2 c2 o2 by (intro exI [of _ r] exI [of _ w] exI [of _ r2] exI [of _ w2]) simp
qed

lemma keeps_open_update:
  assumes "keeps_open t t'" "t ! i = None"
  shows "keeps_open t (t'[i := v])"
  unfolding keeps_open_nth
proof (intro conjI allI impI)
  from assms(1) show "length (t'[i := v]) = length t" by (simp add: keeps_open_nth)
  fix fd assume fd: "fd < length t" "t ! fd \<noteq> None"
  with assms(2) have "fd \<noteq> i" by metis
  with assms(1) fd show "t'[i := v] ! fd = t ! fd" by (simp add: keeps_open_nth)
qed

lemma init_disk_effect:
  assumes "init_disk num st = (r, st')" "nat num < length (controllers st)"
  shows "keeps_open (fds st) (fds st')
       \<and> length (controllers st') = length (controllers st)
       \<and> ((r = - 1 \<and> children st' = children st)
          \<or> (r = 0 \<and> (\<exists>c. children st' = children st @ [c] \<and> alive c \<and> controller_holds_peer st' c)))"
proof (cases "make_pipes num st")
  case (Inl st1)
  with assms(1) have "r = - 1" "st' = st1" by (simp_all add: init_disk_def)
  with make_pipes_Inl [OF Inl] show ?thesis by simp
next
  case (Inr st2)
  from make_pipes_Inr [OF Inr assms(2)] obtain pr pw qr qw where
    len: "pr < length (fds st)" "pw < length (fds st)" "qr < length (fds st)" "qw < length (fds st)"
    and d: "distinct [pr, pw, qr, qw]"
    and free: "fds st ! pr = None" "fds st ! pw = None" "fds st ! qr = None" "fds st ! qw = None"
    and f2: "fds st2 = (fds st)[pr := Some (Pipe_read (next_pipe st)), pw := Some (Pipe_write (next_pipe st)),
                           qr := Some (Pipe_read (Suc (next_pipe st))),
                           qw := Some (Pipe_write (Suc (next_pipe st)))]"
    and td: "to_disk (controllers st2 ! nat num) = (pr, pw)"
    and fd: "from_disk (controllers st2 ! nat num) = (qr, qw)"
    and o: "children st2 = children st" "length (controllers st2) = length (controllers st)"
    by blast
  have k2: "keeps_open (fds st) (fds st2)"
    unfolding f2 by (intro keeps_open_update keeps_open_refl free)
  show ?thesis
  proof (cases "fork_ok st2")
    case False
    with assms(1) Inr have "r = - 1" "st' = set_pid num (- 1) st2" by (auto simp: init_disk_def)
    then show ?thesis using k2 o by (simp add: set_pid_def)
  next
    case True
    let ?wp = "\<lparr>child_pid = next_pid st2, child_id = num,
                child_fds = sys_close qr (sys_close pw (fds st2)),
                to_parent = qw, from_parent = pr, alive = True\<rparr>"
    from assms(1) Inr True td fd
    have r: "r = 0" and st': "st' = (set_pid num (next_pid st2) st2)
                      \<lparr>fds := sys_close qw (sys_close pr (fds st2)),
                       children := children st2 @ [?wp],
                       next_pid := next_pid st2 + 1\<rparr>"
      by (auto simp: init_disk_def Let_def)
    have fds': "fds st' = (fds st2)[pr := None, qw := None]"
      unfolding st' by (simp add: sys_close_def)
    have k: "keeps_open (fds st) (fds st')"
      unfolding fds' f2 by (intro keeps_open_update keeps_open_refl free)
    have lc: "length (controllers st') = length (controllers st)"
      unfolding st' using o by (simp add: set_pid_def)
    have ch: "children st' = children st @ [?wp]" unfolding st' using o by simp
    have cf: "fd_at (child_fds ?wp) (from_parent ?wp) = Some (Pipe_read (next_pipe st))"
      "fd_at (child_fds ?wp) (to_parent ?wp) = Some (Pipe_write (Suc (next_pipe st)))"
      using len d by (simp_all add: fd_at_def sys_close_def f2 nth_list_update)
    have "fds st' ! pw = Some (Pipe_write (next_pipe st))" "pw < length (fds st')"
      "fds st' ! qr = Some (Pipe_read (Suc (next_pipe st)))" "qr < length (fds st')"
      using len d by (simp_all add: fds' f2 nth_list_update)
    then have "Some (Pipe_write (next_pipe st)) \<in> set (fds st')"
      "Some (Pipe_read (Suc (next_pipe st))) \<in> set (fds st')"
      by (metis nth_mem)+
    with cf have "controller_holds_peer st' ?wp"
      by (simp add: controller_holds_peer_def)
    with r k lc ch show ?thesis by simp
  qed
qed

lemma init_loop_effect:
  "\<forall>j \<in> set js. 0 \<le> j \<and> nat j < length (controllers st) \<Longrightarrow> init_loop js st = (r, st') \<Longrightarrow>
     keeps_open (fds st) (fds st')
     \<and> (r = 0 \<or> (r = - 1 \<and> \<not> controllers_allocated st'))
     \<and> (\<exists>new. children st' = children st @ new
               \<and> list_all (\<lambda>c. alive c \<and> controller_holds_peer st' c) new)"
proof (induction js arbitrary: st)
  case Nil
  then have "r = 0" "st' = st" by simp_all
  then show ?case by (simp add: keeps_open_refl)
next
  case (Cons j js)
  obtain r1 st1 where d: "init_disk j st = (r1, st1)" by (metis prod.collapse)
  from Cons.prems(1) have j: "nat j < length (controllers st)" by simp
  from init_disk_effect [OF d j]
  have k1: "keeps_open (fds st) (fds st1)"
    and lc: "length (controllers st1) = length (controllers st)"
    and alt: "(r1 = - 1 \<and> children st1 = children st)
          \<or> (r1 = 0 \<and> (\<exists>c. children st1 = children st @ [c] \<and> alive c \<and> controller_holds_peer st1 c))"
    by simp_all
  from alt show ?case
  proof
    assume a: "r1 = - 1 \<and> children st1 = children st"
    with Cons.prems(2) d have "r = - 1" "st' = st1\<lparr>controllers_allocated := False\<rparr>" by auto
    with k1 a show ?thesis by simp
  next
    assume a: "r1 = 0 \<and> (\<exists>c. children st1 = children st @ [c] \<and> alive c \<and> controller_holds_peer st1 c)"
    then obtain c where c: "children st1 = children st @ [c]" "alive c" "controller_holds_peer st1 c"
      by blast
    from a Cons.prems(2) d have l: "init_loop js st1 = (r, st')" by simp
    from Cons.prems(1) lc have rng: "\<forall>j \<in> set js. 0 \<le> j \<and> nat j < length (controllers st1)" by simp
    from Cons.IH [OF rng l] obtain new where
      k2: "keeps_open (fds st1) (fds st')"
      and r: "r = 0 \<or> (r = - 1 \<and> \<not> controllers_allocated st')"
      and n: "children st' = children st1 @ new"
             "list_all (\<lambda>c. alive c \<and> controller_holds_peer st' c) new"
      by blast
    have "controller_holds_peer st' c" by (rule holds_peer_mono [OF k2 c(3)])
    with c n have "children st' = children st @ (c # new)"
      "list_all (\<lambda>c. alive c \<and> controller_holds_peer st' c) (c # new)" by simp_all
    with keeps_open_trans [OF k1 k2] r show ?thesis by blast
  qed
qed

lemma init_loop_ok:
  "\<forall>j \<in> set js. 0 \<le> j \<and> nat j < length (controllers st) \<Longrightarrow> init_loop js st = (0, st') \<Longrightarrow>
     length (controllers st') = length (controllers st)
     \<and> length (children st') = length (children st) + length js"
proof (induction js arbitrary: st)
  case Nil
  then show ?case by simp
next
  case (Cons j js)
  obtain r1 st1 where d: "init_disk j st = (r1, st1)" by (metis prod.collapse)
  from Cons.prems(1) have j: "nat j < length (controllers st)" by simp
  from Cons.prems(2) d have r1: "r1 \<noteq> - 1" by (auto split: if_splits)
  with Cons.prems(2) d have l: "init_loop js st1 = (0, st')" by simp
  from init_disk_effect [OF d j] r1
  have lc: "length (controllers st1) = length (controllers st)"
    and ch: "length (children st1) = length (children st) + 1" by auto
  from Cons.prems(1) lc have rng: "\<forall>j \<in> set js. 0 \<le> j \<and> nat j < length (controllers st1)" by simp
  from Cons.IH [OF rng l] lc ch show ?case by simp
qed

lemma init_loop_append:
  "init_loop pre st = (0, st1) \<Longrightarrow> init_loop (pre @ js) st = init_loop js st1"
proof (induction pre arbitrary: st)
  case Nil
  then show ?case by simp
next
  case (Cons j pre)
  obtain r1 st2 where d: "init_disk j st = (r1, st2)" by (metis prod.collapse)
  from Cons.prems d have r1: "r1 \<noteq> - 1" by (auto split: if_splits)
  with Cons.prems d have "init_loop pre st2 = (0, st1)" by simp
  from Cons.IH [OF this] d r1 show ?case by simp
qed

lemma spawn_fails_init_disk:
  assumes "spawn_fails num st"
  shows "fst (init_disk num st) = - 1"
  using assms by (simp add: spawn_fails_def init_disk_def split: sum.splits)

text \<open>
  C7 as stated, that a failing \<open>init_all_controllers\<close> leaves no worker running and
  no pipe end open, does not hold: with two slots to initialise and the second
  \<open>fork\<close> failing, the call returns -1 with the records freed, the worker of slot 0
  alive and six pipe descriptors open in the controller.
\<close>

theorem failed_init_leaves_worker_and_pipes:
  "fst failed_init = - 1
   \<and> map alive (children (snd failed_init)) = [True]
   \<and> open_pipe_ends (fds (snd failed_init)) = [3, 4, 5, 6, 7, 8]
   \<and> \<not> controllers_allocated (snd failed_init)
   \<and> \<not> nothing_live (snd failed_init)"
  unfolding failed_init_def by code_simp

text \<open>
  C7, amended. When the slots before \<open>i\<close> have been spawned and spawning slot \<open>i\<close>
  fails (one of its two \<open>pipe\<close> calls or its \<open>fork\<close>), \<open>init_disk\<close> returns -1 and
  \<open>init_all_controllers\<close> stops there: it returns -1 in the state that the failing
  \<open>init_disk\<close> left, with the array of slot records freed and no later slot tried.
  It does not give back what it created for the slots before: the \<open>i\<close> workers
  spawned by the call are alive with the controller holding the other ends of their
  two pipes, and every descriptor that was open in the controller is still open.
\<close>

theorem init_stops_at_the_failing_slot:
  assumes "int (length cs) = total_disks" and "0 \<le> i" and "i < total_disks"
    and "init_loop [0 .. i - 1] (st\<lparr>controllers := cs, controllers_allocated := True\<rparr>) = (0, st_i)"
    and "spawn_fails i st_i"
  shows "fst (init_disk i st_i) = - 1
       \<and> init_all_controllers total_disks (Some cs) st
           = (- 1, (snd (init_disk i st_i))\<lparr>controllers_allocated := False\<rparr>)
       \<and> children (snd (init_disk i st_i)) = children st_i
       \<and> length (children st_i) = length (children st) + nat i
       \<and> take (length (children st)) (children st_i) = children st
       \<and> list_all (\<lambda>c. alive c \<and> controller_holds_peer (snd (init_disk i st_i)) c)
            (drop (length (children st)) (children st_i))
       \<and> keeps_open (fds st) (fds (snd (init_disk i st_i)))"
proof -
  let ?st0 = "st\<lparr>controllers := cs, controllers_allocated := True\<rparr>"
  let ?stf = "snd (init_disk i st_i)"
  have f: "fst (init_disk i st_i) = - 1" by (rule spawn_fails_init_disk [OF assms(5)])
  then have d: "init_disk i st_i = (- 1, ?stf)" by (metis prod.collapse)
  have sp: "[0 .. total_disks - 1] = [0 .. i - 1] @ i # [i + 1 .. total_disks - 1]"
    using assms(2,3) by (intro upto_split3) simp_all
  have "init_loop [0 .. total_disks - 1] ?st0 = init_loop (i # [i + 1 .. total_disks - 1]) st_i"
    unfolding sp by (rule init_loop_append [OF assms(4)])
  also have "\<dots> = (- 1, ?stf\<lparr>controllers_allocated := False\<rparr>)"
    using f by (auto split: prod.splits)
  finally have all: "init_all_controllers total_disks (Some cs) st
                       = (- 1, ?stf\<lparr>controllers_allocated := False\<rparr>)"
    by (simp add: init_all_controllers_def)
  have rng: "\<forall>j \<in> set [0 .. i - 1]. 0 \<le> j \<and> nat j < length (controllers ?st0)"
    using assms(1,3) by auto
  from init_loop_ok [OF rng assms(4)] assms(2)
  have lc: "length (controllers st_i) = length cs"
    and n: "length (children st_i) = length (children st) + nat i" by simp_all
  from init_loop_effect [OF rng assms(4)] obtain new where
    k1: "keeps_open (fds st) (fds st_i)"
    and ch: "children st_i = children st @ new"
    and hp: "list_all (\<lambda>c. alive c \<and> controller_holds_peer st_i c) new" by auto
  have i: "nat i < length (controllers st_i)" using lc assms(1,2,3) by simp
  from init_disk_effect [OF d i]
  have k2: "keeps_open (fds st_i) (fds ?stf)" and same: "children ?stf = children st_i" by auto
  from hp holds_peer_mono [OF k2]
  have "list_all (\<lambda>c. alive c \<and> controller_holds_peer ?stf c) new"
    by (simp add: list_all_iff)
  with f all same n ch keeps_open_trans [OF k1 k2] show ?thesis by simp
qed

theorem init_stops_at_the_failing_slot_witness:
  "int (length (replicate 2 blank)) = 2 \<and> (0 :: int) \<le> 1 \<and> (1 :: int) < 2
   \<and> init_loop [0 .. 1 - 1] ((boot 32 1)\<lparr>controllers := replicate 2 blank, controllers_allocated := True\<rparr>)
       = (0, snd (init_disk 0 ((boot 32 1)\<lparr>controllers := replicate 2 blank, controllers_allocated := True\<rparr>)))
   \<and> spawn_fails 1 (snd (init_disk 0 ((boot 32 1)\<lparr>controllers := replicate 2 blank, controllers_allocated := True\<rparr>)))
   \<and> fst failed_init = - 1
   \<and> length (children (snd failed_init)) = 1
   \<and> list_all alive (children (snd failed_init))
   \<and> keeps_open (fds (boot 32 1)) (fds (snd failed_init))"
proof -
  let ?st0 = "(boot 32 1)\<lparr>controllers := replicate 2 blank, controllers_allocated := True\<rparr>"
  have a: "int (length (replicate 2 blank)) = 2" "(0 :: int) \<le> 1" "(1 :: int) < 2" by simp_all
  have b: "init_loop [0 .. 1 - 1] ?st0 = (0, snd (init_disk 0 ?st0))" by code_simp
  have c: "spawn_fails 1 (snd (init_disk 0 ?st0))" by code_simp
  have e: "children (boot 32 1) = []" "fds (snd failed_init) = fds (snd (init_disk 1 (snd (init_disk 0 ?st0))))"
    unfolding failed_init_def by code_simp+
  from init_stops_at_the_failing_slot [OF a b c] a b c e
  show ?thesis by (simp add: failed_init_def list_all_iff)
qed

end
